theory Spec2Isabelle
  imports Main "HOL-Library.Sublist"
begin

section \<open>Python values, dictionaries and exceptions\<close>

text \<open>
  The pipeline passes leads around as Python dictionaries whose values come from JSON
  replies and database rows.  A value is one of the JSON shapes; a dictionary is an
  association list in insertion order with string keys.  Strings are lists of code
  points below 256 (Latin-1), which covers every literal of the sources.  JSON numbers
  are integers (floats are left out of the model).
\<close>

datatype pyval =
    PNone
  | PBool bool
  | PInt int
  | PStr string
  | PList "pyval list"
  | PDict "(string \<times> pyval) list"

type_synonym pydict = "(string \<times> pyval) list"

datatype error =
    TypeError
  | ValueError
  | AttributeError
  | IndexError
  | KeyError
  | OverflowError
  | RequestError string

text \<open>Truth value testing: \<open>if x\<close> and \<open>not x\<close>.\<close>

fun truthy :: "pyval \<Rightarrow> bool" where
  "truthy PNone = False"
| "truthy (PBool b) = b"
| "truthy (PInt n) = (n \<noteq> 0)"
| "truthy (PStr s) = (s \<noteq> [])"
| "truthy (PList xs) = (xs \<noteq> [])"
| "truthy (PDict d) = (d \<noteq> [])"

text \<open>Lists and dictionaries cannot be hashed: using one as a set member or a
  dictionary key raises \<open>TypeError\<close>.\<close>

fun hashable :: "pyval \<Rightarrow> bool" where
  "hashable (PList xs) = False"
| "hashable (PDict d) = False"
| "hashable v = True"

text \<open>\<open>d.get(k)\<close> and \<open>d.get(k, default)\<close> on a dictionary.\<close>

definition dict_get_default :: "pydict \<Rightarrow> string \<Rightarrow> pyval \<Rightarrow> pyval" where
  "dict_get_default d k dflt = (case map_of d k of None \<Rightarrow> dflt | Some v \<Rightarrow> v)"

definition dict_get :: "pydict \<Rightarrow> string \<Rightarrow> pyval" where
  "dict_get d k = dict_get_default d k PNone"

section \<open>Deduplication filter (\<open>millemail_pipeline.filter_duplicates\<close>)\<close>

text \<open>
  \<open>(company_domain, email) in existing_contacts\<close>: the set holds (domain, email) tuples
  of strings, read from text columns (\<open>get_existing_contacts\<close>).  Hashing the probe
  tuple fails when a component is unhashable; otherwise the tuple is a member only when
  both components are strings and the pair of strings is in the set.
\<close>

definition contact_in :: "pyval \<Rightarrow> pyval \<Rightarrow> (string \<times> string) set \<Rightarrow> error + bool" where
  "contact_in company_domain email existing_contacts =
     (if \<not> hashable company_domain \<or> \<not> hashable email then Inl TypeError
      else Inr (case (company_domain, email) of
                  (PStr d, PStr e) \<Rightarrow> (d, e) \<in> existing_contacts
                | _ \<Rightarrow> False))"

text \<open>The loop over \<open>profiles\<close>, with the list \<open>filtered\<close> being appended to.\<close>

fun filter_duplicates_loop ::
  "pydict list \<Rightarrow> (string \<times> string) set \<Rightarrow> pydict list \<Rightarrow> error + pydict list" where
  "filter_duplicates_loop [] existing_contacts filtered = Inr filtered"
| "filter_duplicates_loop (profile # rest) existing_contacts filtered =
     (let company_domain = dict_get profile ''company_domain'';
          email = dict_get profile ''email''
      in if truthy company_domain \<and> truthy email then
           (case contact_in company_domain email existing_contacts of
              Inl e \<Rightarrow> Inl e
            | Inr True \<Rightarrow> filter_duplicates_loop rest existing_contacts filtered
            | Inr False \<Rightarrow> filter_duplicates_loop rest existing_contacts (filtered @ [profile]))
         else filter_duplicates_loop rest existing_contacts (filtered @ [profile]))"

definition filter_duplicates ::
  "pydict list \<Rightarrow> (string \<times> string) set \<Rightarrow> error + pydict list" where
  "filter_duplicates profiles existing_contacts =
     filter_duplicates_loop profiles existing_contacts []"

text \<open>
  The specification's reading of the filter.  A field is present when it holds a
  non-empty string; the identity pair of a lead exists when both fields are present.
\<close>

definition identity_pair :: "pydict \<Rightarrow> (string \<times> string) option" where
  "identity_pair lead =
     (case (dict_get lead ''company_domain'', dict_get lead ''email'') of
        (PStr d, PStr e) \<Rightarrow> if d \<noteq> [] \<and> e \<noteq> [] then Some (d, e) else None
      | _ \<Rightarrow> None)"

definition is_duplicate :: "(string \<times> string) set \<Rightarrow> pydict \<Rightarrow> bool" where
  "is_duplicate S lead = (case identity_pair lead of None \<Rightarrow> False | Some p \<Rightarrow> p \<in> S)"

definition identity_pairs :: "pydict list \<Rightarrow> (string \<times> string) set" where
  "identity_pairs leads = set (List.map_filter identity_pair leads)"

text \<open>The two identity fields of a lead hold hashable values (text, numbers or none).\<close>

definition keys_hashable :: "pydict \<Rightarrow> bool" where
  "keys_hashable lead =
     (hashable (dict_get lead ''company_domain'') \<and> hashable (dict_get lead ''email''))"

text \<open>The two identity fields of a lead are text or none, as in the lead data model.\<close>

fun text_or_none :: "pyval \<Rightarrow> bool" where
  "text_or_none PNone = True"
| "text_or_none (PStr s) = True"
| "text_or_none v = False"

definition text_keys :: "pydict \<Rightarrow> bool" where
  "text_keys lead =
     (text_or_none (dict_get lead ''company_domain'') \<and> text_or_none (dict_get lead ''email''))"

section \<open>Helpers for code that may raise\<close>

text \<open>Sequencing of two steps, the first of which may raise.\<close>

definition bnd :: "error + 'a \<Rightarrow> ('a \<Rightarrow> error + 'b) \<Rightarrow> error + 'b" where
  "bnd m f = (case m of Inl e \<Rightarrow> Inl e | Inr v \<Rightarrow> f v)"

text \<open>\<open>obj.get(key, default)\<close> on an arbitrary value: only dictionaries have \<open>get\<close>.\<close>

fun py_get :: "pyval \<Rightarrow> string \<Rightarrow> pyval \<Rightarrow> error + pyval" where
  "py_get (PDict d) k dflt = Inr (dict_get_default d k dflt)"
| "py_get v k dflt = Inl AttributeError"

text \<open>\<open>obj[key]\<close> with a string key.\<close>

fun py_item :: "pyval \<Rightarrow> string \<Rightarrow> error + pyval" where
  "py_item (PDict d) k = (case map_of d k of None \<Rightarrow> Inl KeyError | Some v \<Rightarrow> Inr v)"
| "py_item v k = Inl TypeError"

text \<open>\<open>len(obj)\<close> and \<open>obj[0]\<close>.\<close>

fun py_len :: "pyval \<Rightarrow> error + nat" where
  "py_len (PStr s) = Inr (length s)"
| "py_len (PList xs) = Inr (length xs)"
| "py_len (PDict d) = Inr (length d)"
| "py_len v = Inl TypeError"

fun py_first :: "pyval \<Rightarrow> error + pyval" where
  "py_first (PStr s) = (case s of [] \<Rightarrow> Inl IndexError | c # _ \<Rightarrow> Inr (PStr [c]))"
| "py_first (PList xs) = (case xs of [] \<Rightarrow> Inl IndexError | x # _ \<Rightarrow> Inr x)"
| "py_first (PDict d) = Inl KeyError"
| "py_first v = Inl TypeError"

text \<open>\<open>x >= k\<close> for an integer constant \<open>k\<close>: numbers (and booleans, which are the
  numbers 0 and 1) compare; anything else raises \<open>TypeError\<close>.\<close>

fun py_ge :: "pyval \<Rightarrow> int \<Rightarrow> error + bool" where
  "py_ge (PInt n) k = Inr (n \<ge> k)"
| "py_ge (PBool b) k = Inr ((if b then 1 else 0) \<ge> k)"
| "py_ge v k = Inl TypeError"

text \<open>\<open>a or b\<close>.\<close>

definition py_or :: "pyval \<Rightarrow> pyval \<Rightarrow> pyval" where
  "py_or a b = (if truthy a then a else b)"

text \<open>\<open>d[k] = v\<close>: an existing key keeps its place, a new key goes last.\<close>

fun dict_set :: "pydict \<Rightarrow> string \<Rightarrow> pyval \<Rightarrow> pydict" where
  "dict_set [] k v = [(k, v)]"
| "dict_set ((k', v') # d) k v =
     (if k' = k then (k, v) # d else (k', v') # dict_set d k v)"

text \<open>\<open>needle in haystack\<close> on strings: substring containment.\<close>

fun str_in :: "string \<Rightarrow> string \<Rightarrow> bool" where
  "str_in needle [] = (needle = [])"
| "str_in needle (c # hay) = (prefix needle (c # hay) \<or> str_in needle hay)"

text \<open>
  \<open>str.lower()\<close> on code points below 256: the letters A to Z and the accented capitals
  U+00C0 to U+00DE (without the multiplication sign U+00D7) move up by 32.
\<close>

definition lower_char :: "char \<Rightarrow> char" where
  "lower_char c =
     (let n = (of_char c :: nat)
      in if (65 \<le> n \<and> n \<le> 90) \<or> (192 \<le> n \<and> n \<le> 222 \<and> n \<noteq> 215)
         then char_of (n + 32) else c)"

definition str_lower :: "string \<Rightarrow> string" where
  "str_lower s = map lower_char s"

text \<open>
  \<open>str.upper()\<close> on code points below 256: the letters a to z and the accented small
  letters U+00E0 to U+00FE (without the division sign U+00F7) move down by 32, and the
  sharp s becomes SS.  The micro sign and the y with diaeresis have capitals above 255;
  the model leaves them as they are.
\<close>

definition upper_char :: "char \<Rightarrow> string" where
  "upper_char c =
     (let n = (of_char c :: nat)
      in if (97 \<le> n \<and> n \<le> 122) \<or> (224 \<le> n \<and> n \<le> 254 \<and> n \<noteq> 247)
         then [char_of (n - 32)]
         else if n = 223 then ''SS'' else [c])"

definition str_upper :: "string \<Rightarrow> string" where
  "str_upper s = concat (map upper_char s)"

text \<open>\<open>str.strip()\<close>: white space is removed at both ends.\<close>

definition is_space :: "char \<Rightarrow> bool" where
  "is_space c =
     (let n = (of_char c :: nat)
      in (9 \<le> n \<and> n \<le> 13) \<or> (28 \<le> n \<and> n \<le> 32) \<or> n = 133 \<or> n = 160)"

definition str_strip :: "string \<Rightarrow> string" where
  "str_strip s = rev (dropWhile is_space (rev (dropWhile is_space s)))"

section \<open>Replies of the external collaborators\<close>

text \<open>
  A call of \<open>requests.get\<close> either raises (\<open>NoReply\<close>, with the exception's message) or
  returns a response with a status code and a body; \<open>response.json()\<close> raises when the
  body is not JSON (\<open>None\<close>) and returns the decoded value otherwise.
\<close>

datatype http_reply = NoReply string | Reply int "pyval option"

definition response_json :: "pyval option \<Rightarrow> error + pyval" where
  "response_json body = (case body of None \<Rightarrow> Inl ValueError | Some data \<Rightarrow> Inr data)"

text \<open>
  The classification call \<open>messages.create(...)\<close> followed by
  \<open>message.content[0].text\<close> either raises (network or API failure, a reply without a
  text block), with the exception's message, or yields the reply's text.
\<close>

datatype llm_outcome = LlmRaises string | LlmText string

section \<open>Company size (\<open>EmailEnricher.get_company_size\<close>)\<close>

definition LARGE_COMPANY_RANGES :: "string list" where
  "LARGE_COMPANY_RANGES =
     [''501-1K'', ''1K-5K'', ''5K-10K'', ''10K-50K'', ''50K-100K'', ''100K+'',
      ''501-1000'', ''1001-5000'', ''5001-10000'', ''10001+'']"

text \<open>\<open>employee_range in LARGE_COMPANY_RANGES\<close>: membership in a set of strings hashes
  the probe first.\<close>

definition in_large_ranges :: "pyval \<Rightarrow> error + bool" where
  "in_large_ranges employee_range =
     (if \<not> hashable employee_range then Inl TypeError
      else Inr (case employee_range of
                  PStr s \<Rightarrow> s \<in> set LARGE_COMPANY_RANGES
                | _ \<Rightarrow> False))"

text \<open>The body of the \<open>try\<close> block.\<close>

definition get_company_size_try :: "http_reply \<Rightarrow> error + pydict" where
  "get_company_size_try reply =
     (case reply of
        NoReply msg \<Rightarrow> Inl (RequestError msg)
      | Reply status_code body \<Rightarrow>
          if status_code \<noteq> 200 then
            Inr [(''employee_range'', PNone), (''is_large_company'', PBool False),
                 (''is_b2c'', PBool False), (''industry'', PNone)]
          else
            bnd (response_json body) (\<lambda>data.
            bnd (py_get data ''data'' (PDict [])) (\<lambda>company_data.
            bnd (py_get company_data ''metrics'' (PDict [])) (\<lambda>metrics.
            bnd (py_get metrics ''employees'' PNone) (\<lambda>employee_range.
            bnd (in_large_ranges employee_range) (\<lambda>is_large.
            bnd (py_get company_data ''industry'' (PStr [])) (\<lambda>industry.
            bnd (py_get company_data ''sector'' (PStr [])) (\<lambda>sector.
            bnd (py_get company_data ''description'' (PStr [])) (\<lambda>description.
            Inr [(''employee_range'', employee_range),
                 (''is_large_company'', PBool is_large),
                 (''industry'', py_or industry (py_or sector PNone)),
                 (''description'', description)])))))))))"

definition get_company_size :: "pyval \<Rightarrow> http_reply \<Rightarrow> pydict" where
  "get_company_size domain reply =
     (if \<not> truthy domain then
        [(''employee_range'', PNone), (''is_large_company'', PBool False),
         (''is_b2c'', PBool False), (''industry'', PNone)]
      else
        (case get_company_size_try reply of
           Inr result \<Rightarrow> result
         | Inl e \<Rightarrow>
             [(''employee_range'', PNone), (''is_large_company'', PBool False),
              (''industry'', PNone), (''description'', PNone)]))"

section \<open>B2C classification (\<open>EmailEnricher.is_b2c_company\<close>)\<close>

text \<open>
  The prompt is built before the \<open>try\<close> block.  Its text does not influence the result,
  so only its failure is modelled: \<open>description[:500]\<close> is evaluated when \<open>description\<close>
  is truthy, and slicing raises for a number, a boolean or a dictionary.
\<close>

fun slice_ok :: "pyval \<Rightarrow> bool" where
  "slice_ok (PStr s) = True"
| "slice_ok (PList xs) = True"
| "slice_ok v = False"

text \<open>The result carries the number of classification calls that were made.\<close>

definition is_b2c_company ::
  "pyval \<Rightarrow> pyval \<Rightarrow> pyval \<Rightarrow> llm_outcome \<Rightarrow> error + (pydict \<times> nat)" where
  "is_b2c_company company_name industry description outcome =
     (if truthy description \<and> \<not> slice_ok description then Inl TypeError
      else if \<not> truthy industry \<and> \<not> truthy description then
        Inr ([(''is_b2c'', PBool False), (''reason'', PStr ''No data available'')], 0)
      else
        (case outcome of
           LlmText text \<Rightarrow>
             (let response = str_upper (str_strip text);
                  is_b2c = str_in ''B2C'' response
              in Inr ([(''is_b2c'', PBool is_b2c), (''reason'', PStr ''AI classification'')], 1))
         | LlmRaises msg \<Rightarrow>
             Inr ([(''is_b2c'', PBool False), (''reason'', PStr (''Error: '' @ msg))], 1)))"

section \<open>Email verification (\<open>EmailEnricher.verify_email\<close>)\<close>

text \<open>\<open>status == "valid" or (status == "accept_all" and score >= 80)\<close>, evaluated left
  to right: the score is compared only when the status is \<open>accept_all\<close>.\<close>

definition verified_rule :: "pyval \<Rightarrow> pyval \<Rightarrow> error + bool" where
  "verified_rule status score =
     (if status = PStr ''valid'' then Inr True
      else if status = PStr ''accept_all'' then py_ge score 80
      else Inr False)"

definition verify_email_try :: "http_reply \<Rightarrow> error + pydict" where
  "verify_email_try reply =
     (case reply of
        NoReply msg \<Rightarrow> Inl (RequestError msg)
      | Reply status_code body \<Rightarrow>
          if status_code \<noteq> 200 then
            Inr [(''status'', PStr ''unknown''), (''score'', PInt 0), (''verified'', PBool False)]
          else
            bnd (response_json body) (\<lambda>data.
            bnd (py_get data ''data'' (PDict [])) (\<lambda>result.
            bnd (py_get result ''status'' (PStr ''unknown'')) (\<lambda>status.
            bnd (py_get result ''score'' (PInt 0)) (\<lambda>score.
            bnd (verified_rule status score) (\<lambda>verified.
            bnd (py_get result ''result'' (PStr ''unknown'')) (\<lambda>res.
            Inr [(''status'', status), (''score'', score), (''verified'', PBool verified),
                 (''result'', res)])))))))"

definition verify_email :: "pyval \<Rightarrow> http_reply \<Rightarrow> pydict" where
  "verify_email email reply =
     (if \<not> truthy email then
        [(''status'', PStr ''invalid''), (''score'', PInt 0), (''verified'', PBool False)]
      else
        (case verify_email_try reply of
           Inr result \<Rightarrow> result
         | Inl e \<Rightarrow>
             [(''status'', PStr ''unknown''), (''score'', PInt 0), (''verified'', PBool False)]))"

section \<open>Domain and contact lookup (\<open>EmailEnricher.find_company_domain\<close>,
  \<open>EmailEnricher.find_decision_maker\<close>)\<close>

definition find_company_domain_try :: "http_reply \<Rightarrow> error + pyval" where
  "find_company_domain_try reply =
     (case reply of
        NoReply msg \<Rightarrow> Inl (RequestError msg)
      | Reply status_code body \<Rightarrow>
          if status_code \<noteq> 200 then Inr PNone
          else
            bnd (response_json body) (\<lambda>data.
            bnd (py_get data ''data'' PNone) (\<lambda>d.
            if \<not> truthy d then Inr PNone
            else
              bnd (py_item data ''data'') (\<lambda>d.
              bnd (py_get d ''domain'' PNone) (\<lambda>dom.
              if \<not> truthy dom then Inr PNone
              else
                bnd (py_item data ''data'') (\<lambda>d.
                bnd (py_item d ''domain'') (\<lambda>domain. Inr domain)))))))"

definition find_company_domain :: "pyval \<Rightarrow> http_reply \<Rightarrow> pyval" where
  "find_company_domain company_name reply =
     (if \<not> truthy company_name then PNone
      else (case find_company_domain_try reply of Inr v \<Rightarrow> v | Inl e \<Rightarrow> PNone))"

definition find_decision_maker_try :: "http_reply \<Rightarrow> error + pydict option" where
  "find_decision_maker_try reply =
     (case reply of
        NoReply msg \<Rightarrow> Inl (RequestError msg)
      | Reply status_code body \<Rightarrow>
          if status_code \<noteq> 200 then Inr None
          else
            bnd (response_json body) (\<lambda>data.
            bnd (py_get data ''data'' PNone) (\<lambda>d.
            if \<not> truthy d then Inr None
            else
              bnd (py_item data ''data'') (\<lambda>d.
              bnd (py_get d ''emails'' PNone) (\<lambda>emails.
              if \<not> truthy emails then Inr None
              else
                bnd (py_item data ''data'') (\<lambda>d.
                bnd (py_item d ''emails'') (\<lambda>emails.
                bnd (py_len emails) (\<lambda>n.
                if \<not> n > 0 then Inr None
                else
                  bnd (py_first emails) (\<lambda>contact.
                  bnd (py_get contact ''first_name'' (PStr [])) (\<lambda>first_name.
                  bnd (py_get contact ''last_name'' (PStr [])) (\<lambda>last_name.
                  bnd (py_get contact ''value'' PNone) (\<lambda>email.
                  bnd (py_get contact ''position'' (PStr ''Decision Maker'')) (\<lambda>title.
                  bnd (py_get contact ''confidence'' (PInt 0)) (\<lambda>confidence.
                  Inr (Some [(''first_name'', first_name), (''last_name'', last_name),
                             (''email'', email), (''title'', title),
                             (''confidence'', confidence)])))))))))))))))"

definition find_decision_maker :: "pyval \<Rightarrow> http_reply \<Rightarrow> pydict option" where
  "find_decision_maker company_domain reply =
     (if \<not> truthy company_domain then None
      else (case find_decision_maker_try reply of Inr r \<Rightarrow> r | Inl e \<Rightarrow> None))"

section \<open>The enrichment stage of \<open>millemail_pipeline.main\<close>\<close>

text \<open>
  For each lead the stage makes up to five external calls.  The replies the
  collaborators give for one lead are collected in a record; a reply is looked at only
  when the call is made.
\<close>

record replies =
  domain_reply :: http_reply
  size_reply :: http_reply
  b2c_outcome :: llm_outcome
  contact_reply :: http_reply
  verify_reply :: http_reply

record enrich_state =
  enriched_leads :: "pydict list"
  b2c_skipped :: nat
  no_email_found :: nat

text \<open>One turn of the loop \<open>for lead in leads\<close>; every \<open>continue\<close> returns the state
  without the lead.  An exception of \<open>is_b2c_company\<close> is not caught.\<close>

definition enrich_lead :: "pydict \<Rightarrow> replies \<Rightarrow> enrich_state \<Rightarrow> error + enrich_state" where
  "enrich_lead lead0 r st =
     (let company_name = dict_get lead0 ''company_name'';
          domain = find_company_domain company_name (domain_reply r)
      in if \<not> truthy domain then Inr (st\<lparr>no_email_found := no_email_found st + 1\<rparr>)
         else
           (let lead1 = dict_set lead0 ''company_domain'' domain;
                size_info = get_company_size domain (size_reply r);
                industry = dict_get size_info ''industry'';
                description = dict_get size_info ''description''
            in bnd (is_b2c_company company_name industry description (b2c_outcome r))
                 (\<lambda>(b2c_check, calls).
                    if truthy (dict_get b2c_check ''is_b2c'')
                    then Inr (st\<lparr>b2c_skipped := b2c_skipped st + 1\<rparr>)
                    else
                      (let lead2 = dict_set lead1 ''company_type'' (PStr ''b2b'')
                       in case find_decision_maker domain (contact_reply r) of
                            None \<Rightarrow> Inr (st\<lparr>no_email_found := no_email_found st + 1\<rparr>)
                          | Some contact \<Rightarrow>
                              if contact = []
                              then Inr (st\<lparr>no_email_found := no_email_found st + 1\<rparr>)
                              else
                                bnd (py_item (PDict contact) ''email'') (\<lambda>email.
                                let lead3 = dict_set lead2 ''email'' email;
                                    lead4 = dict_set lead3 ''first_name''
                                      (dict_get_default contact ''first_name''
                                         (dict_get_default lead3 ''first_name'' (PStr [])));
                                    lead5 = dict_set lead4 ''last_name''
                                      (dict_get_default contact ''last_name''
                                         (dict_get_default lead4 ''last_name'' (PStr [])));
                                    lead6 = dict_set lead5 ''title''
                                      (dict_get_default contact ''title''
                                         (dict_get_default lead5 ''job_title'' (PStr [])));
                                    verification = verify_email email (verify_reply r)
                                in if \<not> truthy (dict_get verification ''verified'')
                                   then Inr st
                                   else
                                     (let lead7 = dict_set lead6 ''verification_status''
                                                    (dict_get verification ''status'');
                                          lead8 = dict_set lead7 ''verification_score''
                                                    (dict_get verification ''score'')
                                      in Inr (st\<lparr>enriched_leads :=
                                                   enriched_leads st @ [lead8]\<rparr>)))))))"

fun enrich_loop :: "(pydict \<times> replies) list \<Rightarrow> enrich_state \<Rightarrow> error + enrich_state" where
  "enrich_loop [] st = Inr st"
| "enrich_loop ((lead, r) # rest) st = bnd (enrich_lead lead r st) (enrich_loop rest)"

definition enrich_leads :: "(pydict \<times> replies) list \<Rightarrow> error + enrich_state" where
  "enrich_leads leads =
     enrich_loop leads \<lparr>enriched_leads = [], b2c_skipped = 0, no_email_found = 0\<rparr>"

section \<open>Campaign payload (\<open>CampaignManager._transform_lead\<close>)\<close>

definition custom_field_mappings :: "(string \<times> string) list" where
  "custom_field_mappings =
     [(''subject_line'', ''subject_line''), (''email_1'', ''email_1''),
      (''email_1_ps'', ''email_1_ps''), (''email_2'', ''email_2''),
      (''email_3'', ''email_3'')]"

text \<open>The loop over the mappings, filling the dictionary \<open>custom_fields\<close>.\<close>

fun add_custom_fields :: "pydict \<Rightarrow> (string \<times> string) list \<Rightarrow> pydict \<Rightarrow> pydict" where
  "add_custom_fields lead [] custom_fields = custom_fields"
| "add_custom_fields lead ((lead_field, smartlead_field) # rest) custom_fields =
     (let v = dict_get lead lead_field
      in if truthy v
         then add_custom_fields lead rest (dict_set custom_fields smartlead_field v)
         else add_custom_fields lead rest custom_fields)"

definition transform_lead :: "pydict \<Rightarrow> pydict" where
  "transform_lead lead =
     [(''email'', dict_get_default lead ''email'' (PStr [])),
      (''first_name'', dict_get_default lead ''first_name'' (PStr [])),
      (''last_name'', dict_get_default lead ''last_name'' (PStr [])),
      (''company_name'', dict_get_default lead ''company_name'' (PStr [])),
      (''custom_fields'', PDict (add_custom_fields lead custom_field_mappings []))]"

section \<open>Known large brands (\<open>LinkedInProfileScraper.is_big_corporate\<close>)\<close>

text \<open>The set literal, without its repeated entries; accented letters are written by
  their code points.\<close>

definition BIG_CORPORATES_FALLBACK :: "string list" where
  "BIG_CORPORATES_FALLBACK =
     [''volkswagen'', ''coca-cola'', ''renault'', ''carrefour'', ''amazon'', ''apple'',
      ''google'', ''microsoft'', ''facebook'', ''meta'', ''ibm'', ''oracle'', ''sap'',
      ''salesforce'', ''auchan'', ''leclerc'',
      ''intermarch'' @ [char_of (233::nat)],
      ''syst'' @ [char_of (232::nat)] @ ''me u'',
      ''casino'', ''monoprix'', ''peugeot'',
      ''citro'' @ [char_of (235::nat)] @ ''n'',
      ''nissan'', ''toyota'', ''bmw'', ''mercedes'', ''audi'', ''total'', ''engie'',
      ''edf'', ''orange'', ''bouygues'', ''vinci'', ''veolia'', ''lvmh'',
      ''l'' @ [char_of (39::nat)] @ ''or'' @ [char_of (233::nat)] @ ''al'',
      ''danone'', ''lactalis'', ''pernod ricard'', ''schneider electric'', ''airbus'',
      ''thales'', ''safran'', ''michelin'', ''saint-gobain'', ''legrand'', ''bnp paribas'',
      ''soci'' @ [char_of (233::nat)] @ ''t'' @ [char_of (233::nat)] @ '' g''
         @ [char_of (233::nat)] @ ''n'' @ [char_of (233::nat)] @ ''rale'',
      ''cr'' @ [char_of (233::nat)] @ ''dit agricole'',
      ''axa'', ''allianz'', ''adidas'', ''nike'', ''puma'', ''decathlon'', ''fnac'',
      ''darty'', ''capgemini'', ''hewlett packard'', ''hpe'', ''air france'',
      ''worldline'', ''slack'', ''jll'', ''diageo'', ''stripe'', ''servicenow'',
      ''snowflake'', ''uipath'', ''cloudera'']"

definition is_big_corporate :: "pyval \<Rightarrow> error + bool" where
  "is_big_corporate company_name =
     (if \<not> truthy company_name then Inr False
      else (case company_name of
              PStr s \<Rightarrow>
                (let company_lower = str_lower s
                 in Inr (list_ex (\<lambda>corp. str_in corp company_lower) BIG_CORPORATES_FALLBACK))
            | _ \<Rightarrow> Inl AttributeError))"

section \<open>Timestamps (\<open>datetime\<close>, \<open>timedelta\<close>, \<open>datetime.fromisoformat\<close>)\<close>

text \<open>
  A \<open>datetime\<close> is its wall-clock reading, counted in microseconds since
  0001-01-01T00:00:00 of the proleptic Gregorian calendar, together with its \<open>tzinfo\<close>:
  \<open>None\<close> for a naive value, and the offset from UTC in microseconds for an aware one.
\<close>

record datetime =
  wall :: int
  tzinfo :: "int option"

definition day_us :: int where
  "day_us = 86400000000"

text \<open>One past the largest reading, 9999-12-31T23:59:59.999999 (ordinal 3652059).\<close>

definition max_wall :: int where
  "max_wall = 3652059 * day_us"

text \<open>
  Ordering of two datetimes (\<open>a > b\<close>): two naive values compare by their readings, two
  aware values by their instants; a naive and an aware value do not compare
  (``can't compare offset-naive and offset-aware datetimes'').
\<close>

definition dt_gt :: "datetime \<Rightarrow> datetime \<Rightarrow> error + bool" where
  "dt_gt a b =
     (case (tzinfo a, tzinfo b) of
        (None, None) \<Rightarrow> Inr (wall a > wall b)
      | (Some oa, Some ob) \<Rightarrow> Inr (wall a - oa > wall b - ob)
      | _ \<Rightarrow> Inl TypeError)"

text \<open>
  \<open>now - timedelta(days=cooldown_days)\<close> for the aware UTC value \<open>now\<close>: a \<open>timedelta\<close>
  holds at most 999999999 days, and the difference has to stay within the years 1 to
  9999.
\<close>

definition sub_days :: "datetime \<Rightarrow> int \<Rightarrow> error + datetime" where
  "sub_days dt days =
     (if \<bar>days\<bar> > 999999999 then Inl OverflowError
      else (let w = wall dt - days * day_us
            in if w < 0 \<or> w \<ge> max_wall then Inl OverflowError
               else Inr (dt\<lparr>wall := w\<rparr>)))"

text \<open>The calendar: days before a year, days in a month, days before a month.\<close>

definition is_leap :: "int \<Rightarrow> bool" where
  "is_leap y = (y mod 4 = 0 \<and> (y mod 100 \<noteq> 0 \<or> y mod 400 = 0))"

definition days_before_year :: "int \<Rightarrow> int" where
  "days_before_year y = (y - 1) * 365 + (y - 1) div 4 - (y - 1) div 100 + (y - 1) div 400"

definition days_in_month :: "int \<Rightarrow> int \<Rightarrow> int" where
  "days_in_month y m =
     (if m = 2 then (if is_leap y then 29 else 28)
      else if m = 4 \<or> m = 6 \<or> m = 9 \<or> m = 11 then 30 else 31)"

definition days_before_month :: "int \<Rightarrow> int \<Rightarrow> int" where
  "days_before_month y m = (\<Sum>k \<leftarrow> [1..<nat m]. days_in_month y (int k))"

text \<open>The day number (ordinal, 0001-01-01 is day 1) of a calendar date, with the range
  checks of the \<open>datetime\<close> constructor.\<close>

definition ymd_to_ord :: "int \<Rightarrow> int \<Rightarrow> int \<Rightarrow> error + int" where
  "ymd_to_ord y m d =
     (if 1 \<le> y \<and> y \<le> 9999 \<and> 1 \<le> m \<and> m \<le> 12 \<and> 1 \<le> d \<and> d \<le> days_in_month y m
      then Inr (days_before_year y + days_before_month y m + d)
      else Inl ValueError)"

text \<open>The day number of an ISO week date: week 53 exists only in years that begin on a
  Thursday, or on a Wednesday when they are leap years; the day has to fall within the
  years 1 to 9999.\<close>

definition iso_to_ord :: "int \<Rightarrow> int \<Rightarrow> int \<Rightarrow> error + int" where
  "iso_to_ord year week day =
     (let first = days_before_year year + 1;
          first_weekday = (first + 6) mod 7;
          week1_monday = (if first_weekday > 3 then first - first_weekday + 7
                          else first - first_weekday);
          ord = week1_monday + (week - 1) * 7 + day - 1
      in if year < 1 then Inl ValueError
         else if week \<le> 0 \<or> week > 53
                 \<or> (week = 53
                     \<and> \<not> (first_weekday = 3 \<or> (first_weekday = 2 \<and> is_leap year)))
         then Inl ValueError
         else if day \<le> 0 \<or> day \<ge> 8 then Inl ValueError
         else if ord < 1 \<or> ord > 3652059 then Inl ValueError
         else Inr ord)"

text \<open>The constructor of a \<open>datetime\<close> from a day number and a clock reading checks the
  range of every field of the reading.\<close>

definition new_datetime ::
  "int \<Rightarrow> int \<Rightarrow> int \<Rightarrow> int \<Rightarrow> int \<Rightarrow> int option \<Rightarrow> error + datetime" where
  "new_datetime ord hh mm ss us tz =
     (if 0 \<le> hh \<and> hh \<le> 23 \<and> 0 \<le> mm \<and> mm \<le> 59 \<and> 0 \<le> ss \<and> ss \<le> 59
         \<and> 0 \<le> us \<and> us \<le> 999999
      then Inr \<lparr>wall = (ord - 1) * day_us + ((hh * 60 + mm) * 60 + ss) * 1000000 + us,
               tzinfo = tz\<rparr>
      else Inl ValueError)"

text \<open>
  \<open>datetime.fromisoformat\<close> as CPython 3.11 implements it.  The routine works on the
  UTF-8 bytes of the string, which end in a NUL byte; it accepts the calendar dates
  \<open>YYYY-MM-DD\<close> and \<open>YYYYMMDD\<close>, the week dates \<open>YYYY-Www[-D]\<close> and \<open>YYYYWww[D]\<close>, any
  single character between date and time, the times \<open>HH[:MM[:SS[.f+]]]\<close> with or
  without the colons and with a point or a comma before the fraction, and the offsets
  \<open>Z\<close> and \<open>+HH[:MM[:SS[.f+]]]\<close>.  Its leniencies are kept: what follows a complete
  time is not looked at when an offset comes after it, and digits of a fraction beyond
  the sixth are dropped.
\<close>

definition NUL :: char where
  "NUL = char_of (0::nat)"

definition utf8_char :: "char \<Rightarrow> string" where
  "utf8_char c =
     (let n = (of_char c :: nat)
      in if n < 128 then [c] else [char_of (192 + n div 64), char_of (128 + n mod 64)])"

definition utf8 :: "string \<Rightarrow> string" where
  "utf8 s = concat (map utf8_char s)"

text \<open>The byte at an index; reading at the end of the string gives the NUL byte.\<close>

definition byte_at :: "string \<Rightarrow> nat \<Rightarrow> char" where
  "byte_at b i = (if i < length b then b ! i else NUL)"

definition is_digit :: "char \<Rightarrow> bool" where
  "is_digit c = (let n = (of_char c :: nat) in 48 \<le> n \<and> n \<le> 57)"

definition digit_val :: "char \<Rightarrow> int" where
  "digit_val c = int (of_char c) - 48"

definition digits_val :: "string \<Rightarrow> int" where
  "digits_val s = foldl (\<lambda>a c. 10 * a + digit_val c) 0 s"

text \<open>Reading exactly \<open>n\<close> digits; the rest of the bytes is returned.\<close>

definition parse_digits :: "string \<Rightarrow> nat \<Rightarrow> (int \<times> string) option" where
  "parse_digits s n =
     (if n \<le> length s \<and> list_all is_digit (take n s)
      then Some (digits_val (take n s), drop n s) else None)"

text \<open>Where the date ends: told from the bytes 4 and 5 and from the length.\<close>

definition find_isoformat_datetime_separator :: "string \<Rightarrow> nat option" where
  "find_isoformat_datetime_separator b =
     (let n = length b
      in if n = 7 then Some 7
         else if byte_at b 4 = CHR ''-'' then
           (if byte_at b 5 = CHR ''W'' then
              (if n < 8 then None
               else if n > 8 \<and> byte_at b 8 = CHR ''-'' then
                 (if n = 9 then None
                  else if n > 10 \<and> is_digit (byte_at b 10) then Some 8
                  else Some 10)
               else Some 8)
            else Some 10)
         else if byte_at b 4 = CHR ''W'' then
           (let idx = 7 + length (takeWhile is_digit (drop 7 b))
            in if idx < 9 then Some idx else if even idx then Some 7 else Some 8)
         else Some 8)"

text \<open>The date part, as its day number.\<close>

definition parse_isoformat_date :: "string \<Rightarrow> error + int" where
  "parse_isoformat_date dtstr =
     (case parse_digits dtstr 4 of
        None \<Rightarrow> Inl ValueError
      | Some (year, r1) \<Rightarrow>
          (let uses_separator = (byte_at r1 0 = CHR ''-'');
               r2 = (if uses_separator then tl r1 else r1)
           in if byte_at r2 0 = CHR ''W'' then
                (case parse_digits (tl r2) 2 of
                   None \<Rightarrow> Inl ValueError
                 | Some (iso_week, r3) \<Rightarrow>
                     if r3 = [] then iso_to_ord year iso_week 1
                     else if uses_separator \<and> hd r3 \<noteq> CHR ''-'' then Inl ValueError
                     else
                       (case parse_digits (if uses_separator then tl r3 else r3) 1 of
                          None \<Rightarrow> Inl ValueError
                        | Some (iso_day, r4) \<Rightarrow> iso_to_ord year iso_week iso_day))
              else
                (case parse_digits r2 2 of
                   None \<Rightarrow> Inl ValueError
                 | Some (month, r3) \<Rightarrow>
                     if uses_separator \<and> byte_at r3 0 \<noteq> CHR ''-'' then Inl ValueError
                     else
                       (case parse_digits (if uses_separator then tl r3 else r3) 2 of
                          None \<Rightarrow> Inl ValueError
                        | Some (day, r4) \<Rightarrow> ymd_to_ord year month day))))"

text \<open>
  The fraction of a second: up to six digits are read and scaled to microseconds,
  further digits are skipped.  The flag tells whether the byte that follows is something
  other than the NUL byte; \<open>delim\<close> is the byte that follows the bytes given.
\<close>

definition parse_fraction :: "string \<Rightarrow> char \<Rightarrow> error + (int \<times> bool)" where
  "parse_fraction rest delim =
     (let to_parse = min 6 (length rest);
          after = dropWhile is_digit (drop to_parse rest)
      in if to_parse = 0 \<or> \<not> list_all is_digit (take to_parse rest) then Inl ValueError
         else Inr (digits_val (take to_parse rest) * 10 ^ (6 - to_parse),
                   hd (after @ [delim]) \<noteq> NUL))"

text \<open>
  The components \<open>HH\<close>, \<open>MM\<close>, \<open>SS\<close>: \<open>left\<close> counts the components still to be read
  (three at the start), and the first component decides whether colons are used.  The
  result holds the components read, the microseconds and the flag.
\<close>

fun parse_comps ::
  "nat \<Rightarrow> bool \<Rightarrow> string \<Rightarrow> char \<Rightarrow> int list \<Rightarrow> error + (int list \<times> int \<times> bool)" where
  "parse_comps 0 has_separator rest delim vals = Inl ValueError"
| "parse_comps (Suc left) has_separator rest delim vals =
     (case parse_digits rest 2 of
        None \<Rightarrow> Inl ValueError
      | Some (v, rest1) \<Rightarrow>
          (let c = hd (rest1 @ [delim]);
               has_sep = (if Suc left = 3 then c = CHR '':'' else has_separator);
               vals1 = vals @ [v]
           in if length rest1 \<le> 1 then Inr (vals1, 0, c \<noteq> NUL)
              else if has_sep \<and> c = CHR '':'' then
                (if left = 0
                 then bnd (parse_fraction (tl rest1) delim) (\<lambda>(us, t). Inr (vals1, us, t))
                 else parse_comps left has_sep (tl rest1) delim vals1)
              else if c = CHR ''.'' \<or> c = CHR '','' then
                bnd (parse_fraction (tl rest1) delim) (\<lambda>(us, t). Inr (vals1, us, t))
              else if \<not> has_sep then
                (if left = 0
                 then bnd (parse_fraction rest1 delim) (\<lambda>(us, t). Inr (vals1, us, t))
                 else parse_comps left has_sep rest1 delim vals1)
              else Inl ValueError))"

definition parse_hh_mm_ss_ff ::
  "string \<Rightarrow> char \<Rightarrow> error + ((int \<times> int \<times> int \<times> int) \<times> bool)" where
  "parse_hh_mm_ss_ff tstr delim =
     bnd (parse_comps 3 True tstr delim []) (\<lambda>(vals, us, t).
       let padded = vals @ [0, 0, 0]
       in Inr ((padded ! 0, padded ! 1, padded ! 2, us), t))"

definition is_tz_mark :: "char \<Rightarrow> bool" where
  "is_tz_mark c = (c = CHR ''Z'' \<or> c = CHR ''+'' \<or> c = CHR ''-'')"

text \<open>
  The time part: the clock reading up to the first \<open>Z\<close>, \<open>+\<close> or \<open>-\<close>, then the offset.
  An offset whose hours, minutes and seconds are all zero is UTC; an offset of 24 hours
  or more is rejected.
\<close>

definition parse_isoformat_time ::
  "string \<Rightarrow> error + ((int \<times> int \<times> int \<times> int) \<times> int option)" where
  "parse_isoformat_time tstr =
     (if tstr = [] then Inl ValueError
      else
        (let timestr = takeWhile (\<lambda>c. \<not> is_tz_mark c) tstr;
             rest = dropWhile (\<lambda>c. \<not> is_tz_mark c) tstr
         in case rest of
              [] \<Rightarrow>
                bnd (parse_hh_mm_ss_ff timestr NUL) (\<lambda>(time_comps, trailing).
                  if trailing then Inl ValueError else Inr (time_comps, None))
            | mark # tzstr \<Rightarrow>
                bnd (parse_hh_mm_ss_ff timestr mark) (\<lambda>(time_comps, trailing).
                  if mark = CHR ''Z'' then
                    (if byte_at tzstr 0 \<noteq> NUL then Inl ValueError
                     else Inr (time_comps, Some 0))
                  else
                    bnd (parse_hh_mm_ss_ff tzstr NUL) (\<lambda>((h, m, s, f), trailing2).
                      if trailing2 then Inl ValueError
                      else
                        (let secs = (h * 60 + m) * 60 + s;
                             td = secs * 1000000 + f
                         in if secs = 0 then Inr (time_comps, Some 0)
                            else if td \<ge> day_us then Inl ValueError
                            else Inr (time_comps,
                                      Some (if mark = CHR ''-'' then - td else td)))))))"

text \<open>The number of bytes of the character between date and time, read off its first
  byte.\<close>

definition sep_width :: "char \<Rightarrow> nat" where
  "sep_width c =
     (let n = (of_char c :: nat)
      in if n < 128 then 1 else if n div 16 = 14 then 3 else if n div 16 = 15 then 4
         else 2)"

definition fromisoformat :: "string \<Rightarrow> error + datetime" where
  "fromisoformat date_string =
     (if length date_string < 7 then Inl ValueError
      else
        (let b = utf8 date_string
         in case find_isoformat_datetime_separator b of
              None \<Rightarrow> Inl ValueError
            | Some sep \<Rightarrow>
                bnd (parse_isoformat_date (take sep b)) (\<lambda>ord.
                bnd (if length b > sep
                     then parse_isoformat_time (drop (sep + sep_width (b ! sep)) b)
                     else Inr ((0, 0, 0, 0), None))
                    (\<lambda>((hh, mm, ss, us), tz).
                new_datetime ord hh mm ss us tz))))"

section \<open>Cooldown filter (\<open>millemail_pipeline.filter_cooldown\<close>)\<close>

text \<open>\<open>last_contact.replace("Z", "+00:00")\<close>: every \<open>Z\<close> of the string is rewritten.\<close>

definition replace_Z :: "string \<Rightarrow> string" where
  "replace_Z s = concat (map (\<lambda>c. if c = CHR ''Z'' then ''+00:00'' else [c]) s)"

text \<open>
  \<open>last_contact_dates.get(company_domain)\<close> on a dictionary from domain strings to
  timestamp strings: an unhashable key raises, a key that is not a string is not found.
\<close>

definition dates_get :: "(string \<rightharpoonup> string) \<Rightarrow> pyval \<Rightarrow> error + string option" where
  "dates_get last_contact_dates company_domain =
     (if \<not> hashable company_domain then Inl TypeError
      else Inr (case company_domain of
                  PStr d \<Rightarrow> last_contact_dates d
                | _ \<Rightarrow> None))"

text \<open>
  The function calls the library routine \<open>datetime.fromisoformat\<close>.  The definitions
  below take the routine as the parameter \<open>parse\<close>; \<open>filter_cooldown\<close> itself is their
  instance with \<open>fromisoformat\<close>.

  Whether the company of one profile is still in its cooldown period: the test made for
  a profile with a company domain.
\<close>

definition in_cooldown_with ::
  "(string \<Rightarrow> error + datetime) \<Rightarrow> (string \<rightharpoonup> string) \<Rightarrow> datetime \<Rightarrow> pyval \<Rightarrow> error + bool"
  where
  "in_cooldown_with parse last_contact_dates cooldown_threshold company_domain =
     bnd (dates_get last_contact_dates company_domain) (\<lambda>last_contact.
       case last_contact of
         None \<Rightarrow> Inr False
       | Some ts \<Rightarrow>
           if ts = [] then Inr False
           else
             bnd (parse (replace_Z ts)) (\<lambda>last_contact_dt.
             dt_gt last_contact_dt cooldown_threshold))"

text \<open>The loop over \<open>profiles\<close>.\<close>

fun filter_cooldown_loop_with ::
  "(string \<Rightarrow> error + datetime) \<Rightarrow> pydict list \<Rightarrow> (string \<rightharpoonup> string) \<Rightarrow> datetime
     \<Rightarrow> pydict list \<Rightarrow> error + pydict list"
  where
  "filter_cooldown_loop_with parse [] last_contact_dates cooldown_threshold filtered
     = Inr filtered"
| "filter_cooldown_loop_with parse (profile # rest) last_contact_dates cooldown_threshold
     filtered =
     (let company_domain = dict_get profile ''company_domain''
      in if \<not> truthy company_domain
         then filter_cooldown_loop_with parse rest last_contact_dates cooldown_threshold
                (filtered @ [profile])
         else
           (case in_cooldown_with parse last_contact_dates cooldown_threshold
                   company_domain of
              Inl e \<Rightarrow> Inl e
            | Inr True \<Rightarrow>
                filter_cooldown_loop_with parse rest last_contact_dates cooldown_threshold
                  filtered
            | Inr False \<Rightarrow>
                filter_cooldown_loop_with parse rest last_contact_dates cooldown_threshold
                  (filtered @ [profile])))"

text \<open>
  The function reads the clock once: \<open>now\<close> is the reading of
  \<open>datetime.now(timezone.utc)\<close>, an aware value with offset zero, given as its number of
  microseconds.
\<close>

definition filter_cooldown_with ::
  "(string \<Rightarrow> error + datetime) \<Rightarrow> int \<Rightarrow> pydict list \<Rightarrow> (string \<rightharpoonup> string) \<Rightarrow> int
     \<Rightarrow> error + pydict list" where
  "filter_cooldown_with parse now profiles last_contact_dates cooldown_days =
     bnd (sub_days \<lparr>wall = now, tzinfo = Some 0\<rparr> cooldown_days) (\<lambda>cooldown_threshold.
       filter_cooldown_loop_with parse profiles last_contact_dates cooldown_threshold [])"

definition filter_cooldown ::
  "int \<Rightarrow> pydict list \<Rightarrow> (string \<rightharpoonup> string) \<Rightarrow> int \<Rightarrow> error + pydict list" where
  "filter_cooldown now profiles last_contact_dates cooldown_days =
     filter_cooldown_with fromisoformat now profiles last_contact_dates cooldown_days"




section \<open>Properties of the deduplication filter\<close>

lemma contact_in_hashable:
  "hashable d \<Longrightarrow> hashable e \<Longrightarrow>
   contact_in d e S = Inr (case (d, e) of (PStr a, PStr b) \<Rightarrow> (a, b) \<in> S | _ \<Rightarrow> False)"
  by (simp add: contact_in_def)

lemma duplicate_step:
  assumes "keys_hashable p"
      and "truthy (dict_get p ''company_domain'')" and "truthy (dict_get p ''email'')"
  shows "contact_in (dict_get p ''company_domain'') (dict_get p ''email'') S
           = Inr (is_duplicate S p)"
proof -
  let ?d = "dict_get p ''company_domain''" and ?e = "dict_get p ''email''"
  have "hashable ?d" "hashable ?e"
    using assms(1) by (simp_all add: keys_hashable_def)
  then show ?thesis
    using assms(2,3)
    by (cases ?d; cases ?e)
       (simp_all add: contact_in_def is_duplicate_def identity_pair_def)
qed

lemma not_duplicate_falsy:
  "\<not> (truthy (dict_get p ''company_domain'') \<and> truthy (dict_get p ''email''))
   \<Longrightarrow> \<not> is_duplicate S p"
  by (cases "dict_get p ''company_domain''"; cases "dict_get p ''email''")
     (auto simp: is_duplicate_def identity_pair_def)

lemma filter_duplicates_loop_filter:
  "\<forall>p\<in>set profiles. keys_hashable p \<Longrightarrow>
   filter_duplicates_loop profiles S acc
     = Inr (acc @ filter (\<lambda>p. \<not> is_duplicate S p) profiles)"
proof (induction profiles arbitrary: acc)
  case Nil
  show ?case by simp
next
  case (Cons p ps)
  have kh: "keys_hashable p" and rest: "\<forall>q\<in>set ps. keys_hashable q"
    using Cons.prems by simp_all
  show ?case
  proof (cases "truthy (dict_get p ''company_domain'') \<and> truthy (dict_get p ''email'')")
    case True
    then have "contact_in (dict_get p ''company_domain'') (dict_get p ''email'') S
                 = Inr (is_duplicate S p)"
      using duplicate_step[OF kh] by simp
    with True show ?thesis
      by (simp add: Cons.IH[OF rest])
  next
    case False
    then have nd: "\<not> is_duplicate S p" by (rule not_duplicate_falsy)
    have "filter_duplicates_loop (p # ps) S acc = filter_duplicates_loop ps S (acc @ [p])"
      using False by (simp only: filter_duplicates_loop.simps Let_def if_False)
    with nd show ?thesis
      by (simp add: Cons.IH[OF rest])
  qed
qed

text \<open>
  C2.  For every list of leads (identity fields hashable, as text, numbers and none are)
  and every set \<open>S\<close> of identity pairs, \<open>filter_duplicates\<close> returns the input with
  exactly the duplicates dropped: a lead is dropped if and only if its company domain and
  its email are both present and the pair, compared as raw strings, is in \<open>S\<close>.  The
  result is a subsequence of the input (order kept, leads unchanged), and a lead with a
  missing or empty field is never dropped.
\<close>

theorem filter_duplicates_spec:
  assumes "\<forall>p\<in>set leads. keys_hashable p"
  shows "filter_duplicates leads S = Inr (filter (\<lambda>p. \<not> is_duplicate S p) leads)
       \<and> subseq (filter (\<lambda>p. \<not> is_duplicate S p) leads) leads
       \<and> (\<forall>p\<in>set leads. is_duplicate S p \<longleftrightarrow>
            (\<exists>d e. dict_get p ''company_domain'' = PStr d \<and> d \<noteq> []
                 \<and> dict_get p ''email'' = PStr e \<and> e \<noteq> [] \<and> (d, e) \<in> S))
       \<and> (\<forall>p\<in>set leads. \<not> truthy (dict_get p ''company_domain'')
                          \<or> \<not> truthy (dict_get p ''email'')
              \<longrightarrow> p \<in> set (filter (\<lambda>p. \<not> is_duplicate S p) leads))"
proof (intro conjI ballI impI)
  show "filter_duplicates leads S = Inr (filter (\<lambda>p. \<not> is_duplicate S p) leads)"
    using filter_duplicates_loop_filter[OF assms, of S "[]"]
    by (simp add: filter_duplicates_def)
next
  show "subseq (filter (\<lambda>p. \<not> is_duplicate S p) leads) leads"
    by (rule subseq_filter_left)
next
  fix p assume "p \<in> set leads"
  show "is_duplicate S p \<longleftrightarrow>
          (\<exists>d e. dict_get p ''company_domain'' = PStr d \<and> d \<noteq> []
               \<and> dict_get p ''email'' = PStr e \<and> e \<noteq> [] \<and> (d, e) \<in> S)"
    by (cases "dict_get p ''company_domain''"; cases "dict_get p ''email''")
       (auto simp: is_duplicate_def identity_pair_def)
next
  fix p
  assume "p \<in> set leads"
     and "\<not> truthy (dict_get p ''company_domain'') \<or> \<not> truthy (dict_get p ''email'')"
  then show "p \<in> set (filter (\<lambda>p. \<not> is_duplicate S p) leads)"
    using not_duplicate_falsy[of p S] by auto
qed

theorem filter_duplicates_spec_witness:
  "keys_hashable [(''company_domain'', PStr ''a.com''), (''email'', PStr ''x@a.com'')]
 \<and> keys_hashable [(''company_domain'', PStr ''b.com''), (''email'', PStr ''y@b.com'')]
 \<and> keys_hashable [(''company_domain'', PNone), (''email'', PStr ''x@a.com'')]
 \<and> keys_hashable [(''company_domain'', PStr ''A.com''), (''email'', PStr ''x@a.com'')]
 \<and> filter_duplicates
       [[(''company_domain'', PStr ''a.com''), (''email'', PStr ''x@a.com'')],
        [(''company_domain'', PStr ''b.com''), (''email'', PStr ''y@b.com'')],
        [(''company_domain'', PNone), (''email'', PStr ''x@a.com'')],
        [(''company_domain'', PStr ''A.com''), (''email'', PStr ''x@a.com'')]]
       {(''a.com'', ''x@a.com'')}
     = Inr [[(''company_domain'', PStr ''b.com''), (''email'', PStr ''y@b.com'')],
            [(''company_domain'', PNone), (''email'', PStr ''x@a.com'')],
            [(''company_domain'', PStr ''A.com''), (''email'', PStr ''x@a.com'')]]"
  using filter_duplicates_spec
    [of "[[(''company_domain'', PStr ''a.com''), (''email'', PStr ''x@a.com'')],
          [(''company_domain'', PStr ''b.com''), (''email'', PStr ''y@b.com'')],
          [(''company_domain'', PNone), (''email'', PStr ''x@a.com'')],
          [(''company_domain'', PStr ''A.com''), (''email'', PStr ''x@a.com'')]]"
        "{(''a.com'', ''x@a.com'')}"]
  by (simp add: keys_hashable_def is_duplicate_def identity_pair_def dict_get_def
                dict_get_default_def)

lemma identity_pair_in_pairs:
  "p \<in> set out \<Longrightarrow> identity_pair p = Some pr \<Longrightarrow> pr \<in> identity_pairs out"
  by (force simp: identity_pairs_def map_filter_def)

lemma text_keys_hashable: "text_keys p \<Longrightarrow> keys_hashable p"
  unfolding text_keys_def keys_hashable_def
  by (cases "dict_get p ''company_domain''"; cases "dict_get p ''email''") simp_all

lemma second_pass_filter:
  "filter (\<lambda>p. \<not> is_duplicate (S \<union> identity_pairs out) p) out
     = filter (\<lambda>p. identity_pair p = None) out"
proof (rule filter_cong[OF refl])
  fix p assume "p \<in> set out"
  then show "(\<not> is_duplicate (S \<union> identity_pairs out) p) = (identity_pair p = None)"
    using identity_pair_in_pairs[of p out]
    by (cases "identity_pair p") (simp_all add: is_duplicate_def)
qed

text \<open>
  C3, as stated, fails: a lead without a company domain has no identity pair, survives
  the first call, adds nothing to \<open>S\<close>, and survives the second call too.
\<close>

theorem filter_duplicates_twice_counterexample:
  "filter_duplicates [[(''company_domain'', PNone), (''email'', PStr ''x@a.com'')]] {}
     = Inr [[(''company_domain'', PNone), (''email'', PStr ''x@a.com'')]]
 \<and> filter_duplicates [[(''company_domain'', PNone), (''email'', PStr ''x@a.com'')]]
       ({} \<union> identity_pairs [[(''company_domain'', PNone), (''email'', PStr ''x@a.com'')]])
     = Inr [[(''company_domain'', PNone), (''email'', PStr ''x@a.com'')]]"
  by (simp add: filter_duplicates_def dict_get_def dict_get_default_def)

text \<open>
  C3, amended.  For leads whose identity fields are text or none: when
  \<open>filter_duplicates\<close> is applied again to its own output, with \<open>S\<close> extended by the
  identity pairs of that output, the second call returns exactly the leads of the first
  output that have no identity pair (company domain or email missing or empty); hence it
  returns the empty list whenever every lead has both fields present.
\<close>

theorem filter_duplicates_twice:
  assumes "\<forall>p\<in>set leads. text_keys p"
  shows "\<exists>out. filter_duplicates leads S = Inr out
           \<and> filter_duplicates out (S \<union> identity_pairs out)
               = Inr (filter (\<lambda>p. identity_pair p = None) out)
           \<and> ((\<forall>p\<in>set leads. identity_pair p \<noteq> None)
                \<longrightarrow> filter_duplicates out (S \<union> identity_pairs out) = Inr [])"
proof -
  let ?out = "filter (\<lambda>p. \<not> is_duplicate S p) leads"
  have kh: "\<forall>p\<in>set leads. keys_hashable p"
    using assms text_keys_hashable by blast
  then have first: "filter_duplicates leads S = Inr ?out"
    using filter_duplicates_loop_filter[of leads S "[]"]
    by (simp add: filter_duplicates_def)
  have "\<forall>p\<in>set ?out. keys_hashable p"
    using kh by simp
  then have second: "filter_duplicates ?out (S \<union> identity_pairs ?out)
                       = Inr (filter (\<lambda>p. identity_pair p = None) ?out)"
    using filter_duplicates_loop_filter[of ?out "S \<union> identity_pairs ?out" "[]"]
    by (simp only: filter_duplicates_def second_pass_filter append_Nil)
  have "filter (\<lambda>p. identity_pair p = None) ?out = []"
    if "\<forall>p\<in>set leads. identity_pair p \<noteq> None"
    using that by (simp add: filter_empty_conv)
  with first second show ?thesis by simp
qed

theorem filter_duplicates_twice_witness:
  "text_keys [(''company_domain'', PStr ''a.com''), (''email'', PStr ''x@a.com'')]
 \<and> text_keys [(''company_domain'', PStr ''b.com''), (''email'', PStr ''y@b.com'')]
 \<and> identity_pair [(''company_domain'', PStr ''a.com''), (''email'', PStr ''x@a.com'')] \<noteq> None
 \<and> identity_pair [(''company_domain'', PStr ''b.com''), (''email'', PStr ''y@b.com'')] \<noteq> None
 \<and> filter_duplicates
       [[(''company_domain'', PStr ''b.com''), (''email'', PStr ''y@b.com'')]]
       ({(''a.com'', ''x@a.com'')} \<union> identity_pairs
          [[(''company_domain'', PStr ''b.com''), (''email'', PStr ''y@b.com'')]])
     = Inr []"
  using filter_duplicates_twice
    [of "[[(''company_domain'', PStr ''a.com''), (''email'', PStr ''x@a.com'')],
          [(''company_domain'', PStr ''b.com''), (''email'', PStr ''y@b.com'')]]"
        "{(''a.com'', ''x@a.com'')}"]
  by (simp add: text_keys_def identity_pair_def dict_get_def dict_get_default_def
                filter_duplicates_def contact_in_def identity_pairs_def map_filter_def)

section \<open>Properties of the company-size classifier\<close>

lemma py_get_Inr:
  "py_get v k dflt = Inr x \<longleftrightarrow> (\<exists>d. v = PDict d \<and> x = dict_get_default d k dflt)"
  by (cases v) auto

lemma in_large_ranges_Inr_True:
  "in_large_ranges v = Inr True \<longleftrightarrow> (\<exists>s. v = PStr s \<and> s \<in> set LARGE_COMPANY_RANGES)"
  by (cases v) (auto simp: in_large_ranges_def)

lemma large_ranges_set:
  "set LARGE_COMPANY_RANGES =
     {''501-1K'', ''1K-5K'', ''5K-10K'', ''10K-50K'', ''50K-100K'', ''100K+'',
      ''501-1000'', ''1001-5000'', ''5001-10000'', ''10001+''}"
  by (simp add: LARGE_COMPANY_RANGES_def)

lemma get_company_size_try_large:
  "(\<exists>r. get_company_size_try reply = Inr r \<and> dict_get r ''is_large_company'' = PBool True)
   \<longleftrightarrow> (\<exists>data company_data metrics s.
          reply = Reply 200 (Some data)
        \<and> py_get data ''data'' (PDict []) = Inr company_data
        \<and> py_get company_data ''metrics'' (PDict []) = Inr metrics
        \<and> py_get metrics ''employees'' PNone = Inr (PStr s)
        \<and> s \<in> set LARGE_COMPANY_RANGES)"
  (is "?L \<longleftrightarrow> ?R")
proof
  assume ?L
  then obtain r where r: "get_company_size_try reply = Inr r"
      and l: "dict_get r ''is_large_company'' = PBool True" by blast
  from r l show ?R
    by (auto simp: get_company_size_try_def bnd_def response_json_def dict_get_def
                   dict_get_default_def in_large_ranges_Inr_True
             split: http_reply.splits if_splits option.splits sum.splits)
next
  assume ?R
  then obtain data company_data metrics s where
      a: "reply = Reply 200 (Some data)"
    and b: "py_get data ''data'' (PDict []) = Inr company_data"
    and c: "py_get company_data ''metrics'' (PDict []) = Inr metrics"
    and d: "py_get metrics ''employees'' PNone = Inr (PStr s)"
    and e: "s \<in> set LARGE_COMPANY_RANGES" by blast
  from c obtain cd where cd: "company_data = PDict cd"
    by (cases company_data) auto
  have "in_large_ranges (PStr s) = Inr True"
    using e by (simp add: in_large_ranges_def)
  then show ?L
    using b c d unfolding a cd
    by (simp add: get_company_size_try_def bnd_def response_json_def dict_get_def
                  dict_get_default_def)
qed

lemma get_company_size_large:
  "dict_get (get_company_size domain reply) ''is_large_company'' = PBool True
   \<longleftrightarrow> truthy domain
      \<and> (\<exists>r. get_company_size_try reply = Inr r
             \<and> dict_get r ''is_large_company'' = PBool True)"
  by (auto simp: get_company_size_def dict_get_def dict_get_default_def split: sum.splits)

lemma get_company_size_bool:
  "dict_get (get_company_size domain reply) ''is_large_company'' = PBool True
 \<or> dict_get (get_company_size domain reply) ''is_large_company'' = PBool False"
  by (auto simp: get_company_size_def get_company_size_try_def bnd_def dict_get_def
                 dict_get_default_def
           split: sum.splits http_reply.splits if_splits)

text \<open>
  C5.  The large-company decision depends on the employee-range token alone: it is true
  exactly for the ten tokens of the fixed set, and false for every other string, the
  empty string and a missing token.  Accordingly \<open>get_company_size\<close> reports a large
  company exactly when the domain is given, the reply is a success whose
  \<open>data.metrics.employees\<close> is one of the ten tokens; in every other case (no domain,
  failed call, malformed reply, unknown token) it reports false.
\<close>

theorem large_company_decision:
  "in_large_ranges (PStr s) =
     Inr (s \<in> {''501-1K'', ''1K-5K'', ''5K-10K'', ''10K-50K'', ''50K-100K'', ''100K+'',
               ''501-1000'', ''1001-5000'', ''5001-10000'', ''10001+''})
 \<and> in_large_ranges (PStr []) = Inr False
 \<and> in_large_ranges PNone = Inr False
 \<and> (dict_get (get_company_size domain reply) ''is_large_company'' = PBool True
      \<longleftrightarrow> truthy domain
        \<and> (\<exists>data company_data metrics tok.
              reply = Reply 200 (Some data)
            \<and> py_get data ''data'' (PDict []) = Inr company_data
            \<and> py_get company_data ''metrics'' (PDict []) = Inr metrics
            \<and> py_get metrics ''employees'' PNone = Inr (PStr tok)
            \<and> tok \<in> {''501-1K'', ''1K-5K'', ''5K-10K'', ''10K-50K'', ''50K-100K'',
                      ''100K+'', ''501-1000'', ''1001-5000'', ''5001-10000'',
                      ''10001+''}))
 \<and> (dict_get (get_company_size domain reply) ''is_large_company'' = PBool True
      \<or> dict_get (get_company_size domain reply) ''is_large_company'' = PBool False)"
proof (intro conjI)
  show "in_large_ranges (PStr s) =
     Inr (s \<in> {''501-1K'', ''1K-5K'', ''5K-10K'', ''10K-50K'', ''50K-100K'', ''100K+'',
               ''501-1000'', ''1001-5000'', ''5001-10000'', ''10001+''})"
    by (simp only: in_large_ranges_def large_ranges_set hashable.simps pyval.case
                   not_True_eq_False if_False)
  show "in_large_ranges (PStr []) = Inr False"
    by (simp add: in_large_ranges_def LARGE_COMPANY_RANGES_def)
  show "in_large_ranges PNone = Inr False"
    by (simp add: in_large_ranges_def)
  show "dict_get (get_company_size domain reply) ''is_large_company'' = PBool True
      \<longleftrightarrow> truthy domain
        \<and> (\<exists>data company_data metrics tok.
              reply = Reply 200 (Some data)
            \<and> py_get data ''data'' (PDict []) = Inr company_data
            \<and> py_get company_data ''metrics'' (PDict []) = Inr metrics
            \<and> py_get metrics ''employees'' PNone = Inr (PStr tok)
            \<and> tok \<in> {''501-1K'', ''1K-5K'', ''5K-10K'', ''10K-50K'', ''50K-100K'',
                      ''100K+'', ''501-1000'', ''1001-5000'', ''5001-10000'',
                      ''10001+''})"
    by (simp only: get_company_size_large get_company_size_try_large large_ranges_set)
  show "dict_get (get_company_size domain reply) ''is_large_company'' = PBool True
      \<or> dict_get (get_company_size domain reply) ''is_large_company'' = PBool False"
    by (rule get_company_size_bool)
qed

section \<open>Properties of the campaign payload\<close>

lemma custom_fields_keys:
  "map fst (add_custom_fields lead custom_field_mappings [])
    = filter (\<lambda>k. truthy (dict_get lead k))
        [''subject_line'', ''email_1'', ''email_1_ps'', ''email_2'', ''email_3'']"
  by (simp add: custom_field_mappings_def Let_def)

lemma custom_fields_values:
  "map_of (add_custom_fields lead custom_field_mappings []) k
    = (if k \<in> set [''subject_line'', ''email_1'', ''email_1_ps'', ''email_2'', ''email_3'']
          \<and> truthy (dict_get lead k)
       then Some (dict_get lead k) else None)"
  by (simp add: custom_field_mappings_def Let_def)

text \<open>
  C7.  For every lead the payload has exactly the keys \<open>email\<close>, \<open>first_name\<close>,
  \<open>last_name\<close>, \<open>company_name\<close> and \<open>custom_fields\<close>; \<open>custom_fields\<close> is a dictionary
  whose keys are exactly those of the five sequence fields whose value in the lead is
  truthy, each carrying the lead's value.  In particular, when \<open>email_2\<close> is the empty
  string and the other four fields are populated, \<open>custom_fields\<close> has the other four
  keys and no \<open>email_2\<close> key.
\<close>

theorem transform_lead_spec:
  "map fst (transform_lead lead)
     = [''email'', ''first_name'', ''last_name'', ''company_name'', ''custom_fields'']
 \<and> (\<exists>cf. dict_get (transform_lead lead) ''custom_fields'' = PDict cf
        \<and> map fst cf = filter (\<lambda>k. truthy (dict_get lead k))
              [''subject_line'', ''email_1'', ''email_1_ps'', ''email_2'', ''email_3'']
        \<and> (\<forall>k. map_of cf k =
              (if k \<in> set [''subject_line'', ''email_1'', ''email_1_ps'', ''email_2'',
                           ''email_3'']
                  \<and> truthy (dict_get lead k)
               then Some (dict_get lead k) else None))
        \<and> (dict_get lead ''email_2'' = PStr []
             \<and> truthy (dict_get lead ''subject_line'') \<and> truthy (dict_get lead ''email_1'')
             \<and> truthy (dict_get lead ''email_1_ps'') \<and> truthy (dict_get lead ''email_3'')
             \<longrightarrow> map fst cf = [''subject_line'', ''email_1'', ''email_1_ps'', ''email_3'']
               \<and> map_of cf ''email_2'' = None))"
proof (intro conjI exI[of _ "add_custom_fields lead custom_field_mappings []"] allI impI)
  show "map fst (transform_lead lead)
     = [''email'', ''first_name'', ''last_name'', ''company_name'', ''custom_fields'']"
    by (simp add: transform_lead_def)
  show "dict_get (transform_lead lead) ''custom_fields''
          = PDict (add_custom_fields lead custom_field_mappings [])"
    by (simp add: transform_lead_def dict_get_def dict_get_default_def)
  show "map fst (add_custom_fields lead custom_field_mappings [])
          = filter (\<lambda>k. truthy (dict_get lead k))
              [''subject_line'', ''email_1'', ''email_1_ps'', ''email_2'', ''email_3'']"
    by (rule custom_fields_keys)
  show "map_of (add_custom_fields lead custom_field_mappings []) k =
          (if k \<in> set [''subject_line'', ''email_1'', ''email_1_ps'', ''email_2'',
                       ''email_3'']
              \<and> truthy (dict_get lead k)
           then Some (dict_get lead k) else None)" for k
    by (rule custom_fields_values)
  assume h: "dict_get lead ''email_2'' = PStr []
             \<and> truthy (dict_get lead ''subject_line'') \<and> truthy (dict_get lead ''email_1'')
             \<and> truthy (dict_get lead ''email_1_ps'') \<and> truthy (dict_get lead ''email_3'')"
  then show "map fst (add_custom_fields lead custom_field_mappings [])
               = [''subject_line'', ''email_1'', ''email_1_ps'', ''email_3'']"
    by (simp add: custom_fields_keys)
  from h show "map_of (add_custom_fields lead custom_field_mappings []) ''email_2'' = None"
    by (simp add: custom_fields_values)
qed

theorem transform_lead_spec_witness:
  "transform_lead
     [(''email'', PStr ''x@a.com''), (''first_name'', PStr ''Ann''),
      (''subject_line'', PStr ''Hello''), (''email_1'', PStr ''One''),
      (''email_1_ps'', PStr ''PS''), (''email_2'', PStr []), (''email_3'', PStr ''Three'')]
   = [(''email'', PStr ''x@a.com''), (''first_name'', PStr ''Ann''),
      (''last_name'', PStr []), (''company_name'', PStr []),
      (''custom_fields'',
         PDict [(''subject_line'', PStr ''Hello''), (''email_1'', PStr ''One''),
                (''email_1_ps'', PStr ''PS''), (''email_3'', PStr ''Three'')])]"
  using transform_lead_spec
    [of "[(''email'', PStr ''x@a.com''), (''first_name'', PStr ''Ann''),
          (''subject_line'', PStr ''Hello''), (''email_1'', PStr ''One''),
          (''email_1_ps'', PStr ''PS''), (''email_2'', PStr []),
          (''email_3'', PStr ''Three'')]"]
  by (simp add: transform_lead_def custom_field_mappings_def dict_get_def
                dict_get_default_def)

section \<open>Properties of the large-brand check\<close>

lemma str_in_sublist: "str_in needle hay = sublist needle hay"
  by (induction hay) (auto simp: sublist_Cons_right)

lemma big_corporates_nonempty: "[] \<notin> set BIG_CORPORATES_FALLBACK"
  by (simp add: BIG_CORPORATES_FALLBACK_def)

text \<open>
  C8.  For a company name that is a string, \<open>is_big_corporate\<close> lower-cases the name and
  returns true exactly when some entry of the fixed list is a substring of the
  lower-cased name; a missing name and the empty name give false; the name
  ``Groupe Carrefour France'' gives true.
\<close>

theorem is_big_corporate_spec:
  "is_big_corporate (PStr s)
     = Inr (\<exists>corp\<in>set BIG_CORPORATES_FALLBACK. sublist corp (str_lower s))
 \<and> is_big_corporate PNone = Inr False
 \<and> is_big_corporate (PStr []) = Inr False
 \<and> is_big_corporate (PStr ''Groupe Carrefour France'') = Inr True"
proof (intro conjI)
  show "is_big_corporate (PStr s)
     = Inr (\<exists>corp\<in>set BIG_CORPORATES_FALLBACK. sublist corp (str_lower s))"
  proof (cases "s = []")
    case True
    then show ?thesis
      using big_corporates_nonempty
      by (auto simp: is_big_corporate_def str_lower_def)
  next
    case False
    then show ?thesis
      by (simp add: is_big_corporate_def list_ex_iff str_in_sublist)
  qed
  show "is_big_corporate PNone = Inr False"
    by (simp add: is_big_corporate_def)
  show "is_big_corporate (PStr []) = Inr False"
    by (simp add: is_big_corporate_def)
  show "is_big_corporate (PStr ''Groupe Carrefour France'') = Inr True"
    by code_simp
qed

section \<open>Properties of email verification and of the enrichment gate\<close>

lemma bnd_simps: "bnd (Inr v) f = f v" "bnd (Inl e) f = Inl e"
  by (simp_all add: bnd_def)

lemma py_ge_80: "py_ge score 80 = Inr True \<longleftrightarrow> (\<exists>n. score = PInt n \<and> n \<ge> 80)"
  by (cases score) auto

lemma verified_rule_True:
  "verified_rule status score = Inr True
   \<longleftrightarrow> status = PStr ''valid''
     \<or> status = PStr ''accept_all'' \<and> (\<exists>n. score = PInt n \<and> n \<ge> 80)"
  by (auto simp: verified_rule_def py_ge_80)

lemma verify_email_try_dict:
  "verify_email_try (Reply 200 (Some (PDict d))) =
     (case dict_get_default d ''data'' (PDict []) of
        PDict result \<Rightarrow>
          (case verified_rule (dict_get_default result ''status'' (PStr ''unknown''))
                              (dict_get_default result ''score'' (PInt 0)) of
             Inl e \<Rightarrow> Inl e
           | Inr verified \<Rightarrow>
               Inr [(''status'', dict_get_default result ''status'' (PStr ''unknown'')),
                    (''score'', dict_get_default result ''score'' (PInt 0)),
                    (''verified'', PBool verified),
                    (''result'', dict_get_default result ''result'' (PStr ''unknown''))])
      | _ \<Rightarrow> Inl AttributeError)"
  unfolding verify_email_try_def
  apply (simp add: response_json_def bnd_simps)
  apply (cases "dict_get_default d ''data'' (PDict [])")
  apply (simp_all add: bnd_simps)
  apply (simp add: bnd_def)
  done

lemma verify_email_try_other:
  "verify_email_try (NoReply msg) = Inl (RequestError msg)"
  "code \<noteq> 200 \<Longrightarrow> verify_email_try (Reply code body) =
      Inr [(''status'', PStr ''unknown''), (''score'', PInt 0), (''verified'', PBool False)]"
  "verify_email_try (Reply 200 None) = Inl ValueError"
  "\<forall>d. data \<noteq> PDict d \<Longrightarrow> verify_email_try (Reply 200 (Some data)) = Inl AttributeError"
     apply (simp_all add: verify_email_try_def response_json_def bnd_simps)
  apply (cases data; simp add: bnd_simps)
  done

lemma verified_field:
  "dict_get [(''status'', s), (''score'', c), (''verified'', PBool v), (''result'', r)]
            ''verified'' = PBool v"
  "dict_get [(''status'', s), (''score'', c), (''verified'', PBool v)] ''verified'' = PBool v"
  "dict_get [(''status'', s), (''score'', c), (''verified'', PBool v)] ''score'' = c"
  by (simp_all add: dict_get_def dict_get_default_def)

lemma verify_email_verified_iff:
  "truthy (dict_get (verify_email email reply) ''verified'')
   \<longleftrightarrow> truthy email
     \<and> (\<exists>d result. reply = Reply 200 (Some (PDict d))
          \<and> dict_get_default d ''data'' (PDict []) = PDict result
          \<and> verified_rule (dict_get_default result ''status'' (PStr ''unknown''))
                           (dict_get_default result ''score'' (PInt 0)) = Inr True)"
proof (cases "truthy email")
  case False
  then show ?thesis by (simp add: verify_email_def verified_field)
next
  case te: True
  show ?thesis
  proof (cases reply)
    case (NoReply msg)
    with te show ?thesis by (simp add: verify_email_def verify_email_try_other verified_field)
  next
    case (Reply code body)
    show ?thesis
    proof (cases "code = 200")
      case False
      with te Reply show ?thesis
        by (simp add: verify_email_def verify_email_try_other verified_field)
    next
      case c200: True
      show ?thesis
      proof (cases body)
        case None
        with te Reply c200 show ?thesis
          by (simp add: verify_email_def verify_email_try_other verified_field)
      next
        case (Some data)
        show ?thesis
        proof (cases "\<exists>d. data = PDict d")
          case False
          then have "verify_email_try (Reply 200 (Some data)) = Inl AttributeError"
            by (simp add: verify_email_try_other)
          with te Reply c200 Some False show ?thesis
            by (simp add: verify_email_def verified_field)
        next
          case True
          then obtain d where d: "data = PDict d" by blast
          show ?thesis
          proof (cases "dict_get_default d ''data'' (PDict [])")
            case (PDict result)
            show ?thesis
            proof (cases "verified_rule (dict_get_default result ''status'' (PStr ''unknown''))
                              (dict_get_default result ''score'' (PInt 0))")
              case (Inl e)
              with te Reply c200 Some d PDict show ?thesis
                by (simp add: verify_email_def verify_email_try_dict verified_field)
            next
              case (Inr v)
              with te Reply c200 Some d PDict show ?thesis
                by (simp add: verify_email_def verify_email_try_dict verified_field)
            qed
          qed (use te Reply c200 Some d in
                 \<open>simp_all add: verify_email_def verify_email_try_dict verified_field\<close>)
        qed
      qed
    qed
  qed
qed

lemma verify_email_fallback:
  assumes "\<not> truthy email \<or> (\<exists>msg. reply = NoReply msg)
         \<or> (\<exists>code body. reply = Reply code body \<and> code \<noteq> 200)
         \<or> (\<exists>e. verify_email_try reply = Inl e)"
  shows "dict_get (verify_email email reply) ''verified'' = PBool False
       \<and> dict_get (verify_email email reply) ''score'' = PInt 0"
proof (cases "truthy email")
  case False
  then show ?thesis by (simp add: verify_email_def verified_field)
next
  case True
  with assms consider msg where "reply = NoReply msg"
    | code body where "reply = Reply code body" "code \<noteq> 200"
    | e where "verify_email_try reply = Inl e" by blast
  then show ?thesis
  proof cases
    case 1
    with True show ?thesis
      by (simp add: verify_email_def verify_email_try_other verified_field)
  next
    case 2
    with True show ?thesis
      by (simp add: verify_email_def verify_email_try_other verified_field)
  next
    case 3
    with True show ?thesis
      by (simp add: verify_email_def verified_field)
  qed
qed

lemma map_of_dict_set: "map_of (dict_set d k v) = (map_of d)(k \<mapsto> v)"
  by (induction d k v rule: dict_set.induct) auto

lemma dict_get_dict_set:
  "dict_get (dict_set d k v) k' = (if k' = k then v else dict_get d k')"
  by (simp add: dict_get_def dict_get_default_def map_of_dict_set)

lemma enrich_lead_gate:
  assumes "enrich_lead lead r st = Inr st'"
  shows "enriched_leads st' = enriched_leads st
       \<or> (\<exists>l. enriched_leads st' = enriched_leads st @ [l]
              \<and> truthy (dict_get (verify_email (dict_get l ''email'') (verify_reply r))
                                  ''verified'')
              \<and> (\<exists>contact.
                    find_decision_maker
                      (find_company_domain (dict_get lead ''company_name'') (domain_reply r))
                      (contact_reply r) = Some contact
                    \<and> py_item (PDict contact) ''email'' = Inr (dict_get l ''email''))
              \<and> (\<forall>k. k \<notin> {''company_domain'', ''company_type'', ''email'', ''first_name'',
                            ''last_name'', ''title'', ''verification_status'',
                            ''verification_score''}
                    \<longrightarrow> dict_get l k = dict_get lead k))"
proof -
  let ?name = "dict_get lead ''company_name''"
  let ?domain = "find_company_domain ?name (domain_reply r)"
  let ?size = "get_company_size ?domain (size_reply r)"
  let ?b2c = "is_b2c_company ?name (dict_get ?size ''industry'')
                (dict_get ?size ''description'') (b2c_outcome r)"
  show ?thesis
  proof (cases "truthy ?domain")
    case False
    with assms show ?thesis by (auto simp: enrich_lead_def Let_def)
  next
    case dom: True
    show ?thesis
    proof (cases ?b2c)
      case (Inl e)
      with assms dom show ?thesis by (simp add: enrich_lead_def Let_def bnd_simps)
    next
      case (Inr res)
      obtain b2c_check calls where res: "res = (b2c_check, calls)" by (cases res)
      show ?thesis
      proof (cases "truthy (dict_get b2c_check ''is_b2c'')")
        case True
        with assms dom Inr res show ?thesis
          by (auto simp: enrich_lead_def Let_def bnd_simps)
      next
        case nb: False
        show ?thesis
        proof (cases "find_decision_maker ?domain (contact_reply r)")
          case None
          with assms dom Inr res nb show ?thesis
            by (auto simp: enrich_lead_def Let_def bnd_simps)
        next
          case (Some contact)
          show ?thesis
          proof (cases "contact = []")
            case True
            with assms dom Inr res nb Some show ?thesis
              by (auto simp: enrich_lead_def Let_def bnd_simps)
          next
            case ne: False
            show ?thesis
            proof (cases "py_item (PDict contact) ''email''")
              case (Inl e)
              with assms dom Inr res nb Some ne show ?thesis
                by (simp add: enrich_lead_def Let_def bnd_simps)
            next
              case em: (Inr email)
              show ?thesis
              proof (cases "truthy (dict_get (verify_email email (verify_reply r))
                                            ''verified'')")
                case False
                with assms dom Inr res nb Some ne em show ?thesis
                  by (simp add: enrich_lead_def Let_def bnd_simps)
              next
                case ver: True
                let ?lead2 = "dict_set (dict_set lead ''company_domain'' ?domain)
                                ''company_type'' (PStr ''b2b'')"
                let ?lead3 = "dict_set ?lead2 ''email'' email"
                let ?lead4 = "dict_set ?lead3 ''first_name''
                                (dict_get_default contact ''first_name''
                                   (dict_get_default ?lead3 ''first_name'' (PStr [])))"
                let ?lead5 = "dict_set ?lead4 ''last_name''
                                (dict_get_default contact ''last_name''
                                   (dict_get_default ?lead4 ''last_name'' (PStr [])))"
                let ?lead6 = "dict_set ?lead5 ''title''
                                (dict_get_default contact ''title''
                                   (dict_get_default ?lead5 ''job_title'' (PStr [])))"
                let ?v = "verify_email email (verify_reply r)"
                let ?l = "dict_set (dict_set ?lead6 ''verification_status''
                                      (dict_get ?v ''status''))
                            ''verification_score'' (dict_get ?v ''score'')"
                have st': "st' = st\<lparr>enriched_leads := enriched_leads st @ [?l]\<rparr>"
                  using assms dom Inr res nb Some ne em ver
                  by (simp add: enrich_lead_def Let_def bnd_simps)
                have e: "dict_get ?l ''email'' = email"
                  by (simp add: dict_get_dict_set)
                have k: "\<forall>k. k \<notin> {''company_domain'', ''company_type'', ''email'',
                                   ''first_name'', ''last_name'', ''title'',
                                   ''verification_status'', ''verification_score''}
                           \<longrightarrow> dict_get ?l k = dict_get lead k"
                  by (simp add: dict_get_dict_set)
                have "enriched_leads st' = enriched_leads st @ [?l]"
                  by (simp add: st')
                moreover have "truthy (dict_get (verify_email (dict_get ?l ''email'')
                                 (verify_reply r)) ''verified'')"
                  using ver by (simp only: e)
                moreover have "\<exists>c. find_decision_maker ?domain (contact_reply r) = Some c
                                 \<and> py_item (PDict c) ''email'' = Inr (dict_get ?l ''email'')"
                  using Some em by (simp only: e) simp
                ultimately show ?thesis using k by blast
              qed
            qed
          qed
        qed
      qed
    qed
  qed
qed

lemma enrich_loop_gate:
  "enrich_loop xs st = Inr st' \<Longrightarrow>
   \<exists>outs. enriched_leads st' = enriched_leads st @ concat outs
       \<and> list_all2
           (\<lambda>(lead, r) out.
              out = []
              \<or> (\<exists>l. out = [l]
                   \<and> truthy (dict_get (verify_email (dict_get l ''email'') (verify_reply r))
                                       ''verified'')
                   \<and> (\<exists>contact.
                         find_decision_maker
                           (find_company_domain (dict_get lead ''company_name'')
                              (domain_reply r))
                           (contact_reply r) = Some contact
                         \<and> py_item (PDict contact) ''email'' = Inr (dict_get l ''email''))
                   \<and> (\<forall>k. k \<notin> {''company_domain'', ''company_type'', ''email'',
                                 ''first_name'', ''last_name'', ''title'',
                                 ''verification_status'', ''verification_score''}
                         \<longrightarrow> dict_get l k = dict_get lead k)))
           xs outs"
proof (induction xs arbitrary: st)
  case Nil
  then show ?case by simp
next
  case (Cons x xs)
  let ?G = "\<lambda>(lead, r) out.
              out = []
              \<or> (\<exists>l. out = [l]
                   \<and> truthy (dict_get (verify_email (dict_get l ''email'') (verify_reply r))
                                       ''verified'')
                   \<and> (\<exists>contact.
                         find_decision_maker
                           (find_company_domain (dict_get lead ''company_name'')
                              (domain_reply r))
                           (contact_reply r) = Some contact
                         \<and> py_item (PDict contact) ''email'' = Inr (dict_get l ''email''))
                   \<and> (\<forall>k. k \<notin> {''company_domain'', ''company_type'', ''email'',
                                 ''first_name'', ''last_name'', ''title'',
                                 ''verification_status'', ''verification_score''}
                         \<longrightarrow> dict_get l k = dict_get lead k))"
  obtain lead r where x: "x = (lead, r)" by (cases x)
  from Cons.prems obtain st1 where
      s1: "enrich_lead lead r st = Inr st1" and s2: "enrich_loop xs st1 = Inr st'"
    unfolding x by (cases "enrich_lead lead r st") (simp_all add: bnd_simps)
  from Cons.IH[OF s2] obtain outs where
      n1: "enriched_leads st' = enriched_leads st1 @ concat outs"
    and n2: "list_all2 ?G xs outs" by blast
  from enrich_lead_gate[OF s1] obtain out where
      o1: "enriched_leads st1 = enriched_leads st @ out" and o2: "?G (lead, r) out"
  proof
    assume a: "enriched_leads st1 = enriched_leads st"
    show ?thesis by (rule that[of "[]"]) (simp_all add: a)
  next
    assume "\<exists>l. enriched_leads st1 = enriched_leads st @ [l]
              \<and> truthy (dict_get (verify_email (dict_get l ''email'') (verify_reply r))
                                  ''verified'')
              \<and> (\<exists>contact.
                    find_decision_maker
                      (find_company_domain (dict_get lead ''company_name'') (domain_reply r))
                      (contact_reply r) = Some contact
                    \<and> py_item (PDict contact) ''email'' = Inr (dict_get l ''email''))
              \<and> (\<forall>k. k \<notin> {''company_domain'', ''company_type'', ''email'', ''first_name'',
                            ''last_name'', ''title'', ''verification_status'',
                            ''verification_score''}
                    \<longrightarrow> dict_get l k = dict_get lead k)"
    then obtain l where l1: "enriched_leads st1 = enriched_leads st @ [l]"
      and l2: "?G (lead, r) [l]" by auto
    show ?thesis by (rule that[of "[l]"]) (use l1 l2 in simp_all)
  qed
  have c1: "enriched_leads st' = enriched_leads st @ concat (out # outs)"
    using n1 o1 by simp
  have c2: "list_all2 ?G (x # xs) (out # outs)"
    using n2 o2 x by simp
  show ?case
    by (rule exI[of _ "out # outs"]) (rule conjI[OF c1 c2])
qed

text \<open>
  C10.  \<open>verify_email\<close> reports a verified address exactly when the email is given, the
  call succeeds with status code 200 and a well-formed reply, and the returned status is
  \<open>valid\<close>, or it is \<open>accept_all\<close> and the score is at least 80.  A missing email, a
  failed call, a status code other than 200 and any exception while reading the reply
  give \<open>verified = False\<close> with score 0.  In the enrichment stage every input lead
  contributes, in order, either nothing or one enriched lead; the lead it contributes
  carries the email of the contact found for this very lead, \<open>verify_email\<close> reports
  that email verified on the reply given for this very lead, and the enriched lead
  agrees with its input on every field the stage does not write.
\<close>

theorem verify_email_gate:
  "(truthy (dict_get (verify_email email reply) ''verified'')
      \<longleftrightarrow> truthy email
        \<and> (\<exists>d result. reply = Reply 200 (Some (PDict d))
             \<and> dict_get_default d ''data'' (PDict []) = PDict result
             \<and> (dict_get_default result ''status'' (PStr ''unknown'') = PStr ''valid''
                \<or> dict_get_default result ''status'' (PStr ''unknown'') = PStr ''accept_all''
                  \<and> (\<exists>n. dict_get_default result ''score'' (PInt 0) = PInt n \<and> n \<ge> 80))))
 \<and> (\<not> truthy email \<or> (\<exists>msg. reply = NoReply msg)
       \<or> (\<exists>code body. reply = Reply code body \<and> code \<noteq> 200)
       \<or> (\<exists>e. verify_email_try reply = Inl e)
     \<longrightarrow> dict_get (verify_email email reply) ''verified'' = PBool False
       \<and> dict_get (verify_email email reply) ''score'' = PInt 0)
 \<and> (enrich_leads leads = Inr st
     \<longrightarrow> (\<exists>outs. enriched_leads st = concat outs
           \<and> list_all2
              (\<lambda>(lead, r) out.
                 out = []
                 \<or> (\<exists>l. out = [l]
                      \<and> truthy (dict_get (verify_email (dict_get l ''email'')
                                           (verify_reply r)) ''verified'')
                      \<and> (\<exists>contact.
                            find_decision_maker
                              (find_company_domain (dict_get lead ''company_name'')
                                 (domain_reply r))
                              (contact_reply r) = Some contact
                            \<and> py_item (PDict contact) ''email''
                                = Inr (dict_get l ''email''))
                      \<and> (\<forall>k. k \<notin> {''company_domain'', ''company_type'', ''email'',
                                    ''first_name'', ''last_name'', ''title'',
                                    ''verification_status'', ''verification_score''}
                            \<longrightarrow> dict_get l k = dict_get lead k)))
              leads outs))"
proof (intro conjI impI)
  show "truthy (dict_get (verify_email email reply) ''verified'')
      \<longleftrightarrow> truthy email
        \<and> (\<exists>d result. reply = Reply 200 (Some (PDict d))
             \<and> dict_get_default d ''data'' (PDict []) = PDict result
             \<and> (dict_get_default result ''status'' (PStr ''unknown'') = PStr ''valid''
                \<or> dict_get_default result ''status'' (PStr ''unknown'') = PStr ''accept_all''
                  \<and> (\<exists>n. dict_get_default result ''score'' (PInt 0) = PInt n \<and> n \<ge> 80)))"
    by (simp only: verify_email_verified_iff verified_rule_True)
next
  assume "\<not> truthy email \<or> (\<exists>msg. reply = NoReply msg)
       \<or> (\<exists>code body. reply = Reply code body \<and> code \<noteq> 200)
       \<or> (\<exists>e. verify_email_try reply = Inl e)"
  then have "dict_get (verify_email email reply) ''verified'' = PBool False
       \<and> dict_get (verify_email email reply) ''score'' = PInt 0"
    by (rule verify_email_fallback)
  then show "dict_get (verify_email email reply) ''verified'' = PBool False"
    and "dict_get (verify_email email reply) ''score'' = PInt 0" by simp_all
next
  assume "enrich_leads leads = Inr st"
  then have "enrich_loop leads \<lparr>enriched_leads = [], b2c_skipped = 0, no_email_found = 0\<rparr>
               = Inr st"
    by (simp only: enrich_leads_def)
  from enrich_loop_gate[OF this]
  show "\<exists>outs. enriched_leads st = concat outs
           \<and> list_all2
              (\<lambda>(lead, r) out.
                 out = []
                 \<or> (\<exists>l. out = [l]
                      \<and> truthy (dict_get (verify_email (dict_get l ''email'')
                                           (verify_reply r)) ''verified'')
                      \<and> (\<exists>contact.
                            find_decision_maker
                              (find_company_domain (dict_get lead ''company_name'')
                                 (domain_reply r))
                              (contact_reply r) = Some contact
                            \<and> py_item (PDict contact) ''email''
                                = Inr (dict_get l ''email''))
                      \<and> (\<forall>k. k \<notin> {''company_domain'', ''company_type'', ''email'',
                                    ''first_name'', ''last_name'', ''title'',
                                    ''verification_status'', ''verification_score''}
                            \<longrightarrow> dict_get l k = dict_get lead k)))
              leads outs"
    by simp
qed

lemma enrich_example:
  "enrich_leads
     [([(''company_name'', PStr ''Acme'')],
        \<lparr>domain_reply = Reply 200 (Some (PDict [(''data'', PDict [(''domain'', PStr ''acme.io'')])])),
         size_reply = Reply 404 None,
         b2c_outcome = LlmText ''B2B'',
         contact_reply = Reply 200 (Some (PDict [(''data'',
            PDict [(''emails'', PList [PDict [(''value'', PStr ''ann@acme.io''),
                                             (''first_name'', PStr ''Ann'')]])])])),
         verify_reply = Reply 200 (Some (PDict [(''data'',
            PDict [(''status'', PStr ''accept_all''), (''score'', PInt 85)])]))\<rparr>),
       ([(''company_name'', PStr ''Bolt'')],
        \<lparr>domain_reply = Reply 200 (Some (PDict [(''data'', PDict [(''domain'', PStr ''bolt.io'')])])),
         size_reply = Reply 404 None,
         b2c_outcome = LlmText ''B2B'',
         contact_reply = Reply 200 (Some (PDict [(''data'',
            PDict [(''emails'', PList [PDict [(''value'', PStr ''bob@bolt.io'')]])])])),
         verify_reply = Reply 200 (Some (PDict [(''data'',
            PDict [(''status'', PStr ''invalid''), (''score'', PInt 0)])]))\<rparr>)]
   = Inr \<lparr>enriched_leads =
            [[(''company_name'', PStr ''Acme''), (''company_domain'', PStr ''acme.io''),
              (''company_type'', PStr ''b2b''), (''email'', PStr ''ann@acme.io''),
              (''first_name'', PStr ''Ann''), (''last_name'', PStr []),
              (''title'', PStr ''Decision Maker''),
              (''verification_status'', PStr ''accept_all''),
              (''verification_score'', PInt 85)]],
          b2c_skipped = 0, no_email_found = 0\<rparr>"
  by code_simp

theorem verify_email_gate_witness:
  "dict_get (verify_email (PStr ''ann@acme.io'') (Reply 500 None)) ''verified'' = PBool False
 \<and> dict_get (verify_email (PStr ''ann@acme.io'') (Reply 500 None)) ''score'' = PInt 0
 \<and> truthy (dict_get (verify_email (PStr ''ann@acme.io'')
      (Reply 200 (Some (PDict [(''data'',
           PDict [(''status'', PStr ''accept_all''), (''score'', PInt 85)])])))) ''verified'')
 \<and> enrich_leads
     [([(''company_name'', PStr ''Acme'')],
        \<lparr>domain_reply = Reply 200 (Some (PDict [(''data'', PDict [(''domain'', PStr ''acme.io'')])])),
         size_reply = Reply 404 None,
         b2c_outcome = LlmText ''B2B'',
         contact_reply = Reply 200 (Some (PDict [(''data'',
            PDict [(''emails'', PList [PDict [(''value'', PStr ''ann@acme.io''),
                                             (''first_name'', PStr ''Ann'')]])])])),
         verify_reply = Reply 200 (Some (PDict [(''data'',
            PDict [(''status'', PStr ''accept_all''), (''score'', PInt 85)])]))\<rparr>),
       ([(''company_name'', PStr ''Bolt'')],
        \<lparr>domain_reply = Reply 200 (Some (PDict [(''data'', PDict [(''domain'', PStr ''bolt.io'')])])),
         size_reply = Reply 404 None,
         b2c_outcome = LlmText ''B2B'',
         contact_reply = Reply 200 (Some (PDict [(''data'',
            PDict [(''emails'', PList [PDict [(''value'', PStr ''bob@bolt.io'')]])])])),
         verify_reply = Reply 200 (Some (PDict [(''data'',
            PDict [(''status'', PStr ''invalid''), (''score'', PInt 0)])]))\<rparr>)]
   = Inr \<lparr>enriched_leads =
            [[(''company_name'', PStr ''Acme''), (''company_domain'', PStr ''acme.io''),
              (''company_type'', PStr ''b2b''), (''email'', PStr ''ann@acme.io''),
              (''first_name'', PStr ''Ann''), (''last_name'', PStr []),
              (''title'', PStr ''Decision Maker''),
              (''verification_status'', PStr ''accept_all''),
              (''verification_score'', PInt 85)]],
          b2c_skipped = 0, no_email_found = 0\<rparr>
 \<and> (\<exists>outs. enriched_leads
        \<lparr>enriched_leads =
            [[(''company_name'', PStr ''Acme''), (''company_domain'', PStr ''acme.io''),
              (''company_type'', PStr ''b2b''), (''email'', PStr ''ann@acme.io''),
              (''first_name'', PStr ''Ann''), (''last_name'', PStr []),
              (''title'', PStr ''Decision Maker''),
              (''verification_status'', PStr ''accept_all''),
              (''verification_score'', PInt 85)]],
          b2c_skipped = 0, no_email_found = 0\<rparr>
        = concat outs
       \<and> list_all2
              (\<lambda>(lead, r) out.
                 out = []
                 \<or> (\<exists>l. out = [l]
                      \<and> truthy (dict_get (verify_email (dict_get l ''email'')
                                           (verify_reply r)) ''verified'')
                      \<and> (\<exists>contact.
                            find_decision_maker
                              (find_company_domain (dict_get lead ''company_name'')
                                 (domain_reply r))
                              (contact_reply r) = Some contact
                            \<and> py_item (PDict contact) ''email''
                                = Inr (dict_get l ''email''))
                      \<and> (\<forall>k. k \<notin> {''company_domain'', ''company_type'', ''email'',
                                    ''first_name'', ''last_name'', ''title'',
                                    ''verification_status'', ''verification_score''}
                            \<longrightarrow> dict_get l k = dict_get lead k)))
     [([(''company_name'', PStr ''Acme'')],
        \<lparr>domain_reply = Reply 200 (Some (PDict [(''data'', PDict [(''domain'', PStr ''acme.io'')])])),
         size_reply = Reply 404 None,
         b2c_outcome = LlmText ''B2B'',
         contact_reply = Reply 200 (Some (PDict [(''data'',
            PDict [(''emails'', PList [PDict [(''value'', PStr ''ann@acme.io''),
                                             (''first_name'', PStr ''Ann'')]])])])),
         verify_reply = Reply 200 (Some (PDict [(''data'',
            PDict [(''status'', PStr ''accept_all''), (''score'', PInt 85)])]))\<rparr>),
       ([(''company_name'', PStr ''Bolt'')],
        \<lparr>domain_reply = Reply 200 (Some (PDict [(''data'', PDict [(''domain'', PStr ''bolt.io'')])])),
         size_reply = Reply 404 None,
         b2c_outcome = LlmText ''B2B'',
         contact_reply = Reply 200 (Some (PDict [(''data'',
            PDict [(''emails'', PList [PDict [(''value'', PStr ''bob@bolt.io'')]])])])),
         verify_reply = Reply 200 (Some (PDict [(''data'',
            PDict [(''status'', PStr ''invalid''), (''score'', PInt 0)])]))\<rparr>)]
     outs)"
proof -
  have a: "dict_get (verify_email (PStr ''ann@acme.io'') (Reply 500 None)) ''verified''
             = PBool False
         \<and> dict_get (verify_email (PStr ''ann@acme.io'') (Reply 500 None)) ''score'' = PInt 0"
    using verify_email_gate[of "PStr ''ann@acme.io''" "Reply 500 None"] by simp
  have b: "truthy (dict_get (verify_email (PStr ''ann@acme.io'')
      (Reply 200 (Some (PDict [(''data'',
           PDict [(''status'', PStr ''accept_all''), (''score'', PInt 85)])])))) ''verified'')"
    using verify_email_gate[of "PStr ''ann@acme.io''"
      "Reply 200 (Some (PDict [(''data'',
           PDict [(''status'', PStr ''accept_all''), (''score'', PInt 85)])]))"]
    by (simp add: dict_get_default_def)
  note c = verify_email_gate[THEN conjunct2, THEN conjunct2, THEN mp, OF enrich_example]
  show ?thesis
    by (intro conjI a[THEN conjunct1] a[THEN conjunct2] b enrich_example c)
qed

section \<open>Properties of the B2C classifier\<close>

text \<open>
  C6, as stated, fails in its last part: the reply is stripped and upper-cased before
  the test, so the lower-case reply \<open>b2c\<close>, in which the literal token \<open>B2C\<close> does not
  appear, is classified as B2C.
\<close>

theorem is_b2c_literal_counterexample:
  "is_b2c_company (PStr ''Acme'') (PStr ''Retail'') PNone (LlmText ''b2c'')
     = Inr ([(''is_b2c'', PBool True), (''reason'', PStr ''AI classification'')], 1)
 \<and> \<not> str_in ''B2C'' ''b2c''"
  by code_simp

text \<open>
  C6, amended.  When industry and description are both empty or absent the classifier
  returns \<open>is_b2c = False\<close> with reason ``No data available'' and makes no external
  call.  Otherwise (the description, if any, being text) it makes one call: when the
  call fails it returns \<open>is_b2c = False\<close> with a reason that records the failure; when
  it replies, \<open>is_b2c\<close> is exactly whether \<open>B2C\<close> appears in the reply after stripping
  and upper-casing it (a case-insensitive test).  Hence \<open>is_b2c\<close> is true only when the
  collaborator replied with such a text: no failure excludes a lead.
\<close>

theorem is_b2c_company_spec:
  "(\<not> truthy industry \<and> \<not> truthy description
      \<longrightarrow> is_b2c_company company_name industry description outcome
            = Inr ([(''is_b2c'', PBool False), (''reason'', PStr ''No data available'')], 0))
 \<and> ((truthy industry \<or> truthy description) \<and> (truthy description \<longrightarrow> slice_ok description)
      \<longrightarrow> is_b2c_company company_name industry description (LlmRaises msg)
            = Inr ([(''is_b2c'', PBool False), (''reason'', PStr (''Error: '' @ msg))], 1)
        \<and> is_b2c_company company_name industry description (LlmText reply)
            = Inr ([(''is_b2c'', PBool (sublist ''B2C'' (str_upper (str_strip reply)))),
                    (''reason'', PStr ''AI classification'')], 1))
 \<and> (is_b2c_company company_name industry description outcome = Inr (r, n)
      \<and> truthy (dict_get r ''is_b2c'')
      \<longrightarrow> (\<exists>reply. outcome = LlmText reply
                  \<and> sublist ''B2C'' (str_upper (str_strip reply))))"
proof (intro conjI impI)
  assume "\<not> truthy industry \<and> \<not> truthy description"
  then show "is_b2c_company company_name industry description outcome
            = Inr ([(''is_b2c'', PBool False), (''reason'', PStr ''No data available'')], 0)"
    by (simp add: is_b2c_company_def)
next
  assume h: "(truthy industry \<or> truthy description)
           \<and> (truthy description \<longrightarrow> slice_ok description)"
  then show "is_b2c_company company_name industry description (LlmRaises msg)
            = Inr ([(''is_b2c'', PBool False), (''reason'', PStr (''Error: '' @ msg))], 1)"
    by (auto simp: is_b2c_company_def)
  from h show "is_b2c_company company_name industry description (LlmText reply)
            = Inr ([(''is_b2c'', PBool (sublist ''B2C'' (str_upper (str_strip reply)))),
                    (''reason'', PStr ''AI classification'')], 1)"
    by (auto simp: is_b2c_company_def Let_def str_in_sublist)
next
  assume h: "is_b2c_company company_name industry description outcome = Inr (r, n)
           \<and> truthy (dict_get r ''is_b2c'')"
  show "\<exists>reply. outcome = LlmText reply \<and> sublist ''B2C'' (str_upper (str_strip reply))"
  proof (cases outcome)
    case (LlmRaises msg)
    with h show ?thesis
      by (auto simp: is_b2c_company_def dict_get_def dict_get_default_def split: if_splits)
  next
    case (LlmText reply)
    with h show ?thesis
      by (auto simp: is_b2c_company_def Let_def dict_get_def dict_get_default_def
                     str_in_sublist split: if_splits)
  qed
qed

lemma b2c_reply_example: "sublist ''B2C'' (str_upper (str_strip '' b2c '')) = True"
  unfolding str_in_sublist[symmetric] by code_simp

theorem is_b2c_company_spec_witness:
  "is_b2c_company (PStr ''Acme'') PNone PNone (LlmText ''B2C'')
     = Inr ([(''is_b2c'', PBool False), (''reason'', PStr ''No data available'')], 0)
 \<and> is_b2c_company (PStr ''Acme'') (PStr ''Retail'') PNone (LlmRaises ''timeout'')
     = Inr ([(''is_b2c'', PBool False), (''reason'', PStr ''Error: timeout'')], 1)
 \<and> is_b2c_company (PStr ''Acme'') (PStr ''Retail'') PNone (LlmText '' b2c '')
     = Inr ([(''is_b2c'', PBool True), (''reason'', PStr ''AI classification'')], 1)"
proof -
  have a: "is_b2c_company (PStr ''Acme'') PNone PNone (LlmText ''B2C'')
     = Inr ([(''is_b2c'', PBool False), (''reason'', PStr ''No data available'')], 0)"
    using is_b2c_company_spec[of PNone PNone "PStr ''Acme''" "LlmText ''B2C''"] by simp
  have b: "is_b2c_company (PStr ''Acme'') (PStr ''Retail'') PNone (LlmRaises ''timeout'')
     = Inr ([(''is_b2c'', PBool False), (''reason'', PStr ''Error: timeout'')], 1)
   \<and> is_b2c_company (PStr ''Acme'') (PStr ''Retail'') PNone (LlmText '' b2c '')
     = Inr ([(''is_b2c'', PBool True), (''reason'', PStr ''AI classification'')], 1)"
    using is_b2c_company_spec[of "PStr ''Retail''" PNone "PStr ''Acme''" _ "''timeout''"
                                 "'' b2c ''"]
    by (simp add: b2c_reply_example)
  from a b show ?thesis by simp
qed

section \<open>Properties of the cooldown filter\<close>









text \<open>
  C9 fails on the code.  A stored timestamp without a time zone designator, such as
  \<open>datetime.now().isoformat()\<close> writes in \<open>insert_prospects\<close>, parses to a naive
  datetime, and comparing it with the aware threshold raises \<open>TypeError\<close>, which
  \<open>filter_cooldown\<close> does not catch.
\<close>

theorem filter_cooldown_naive_raises:
  "fromisoformat (replace_Z ''2024-01-02T00:00:00'')
     = Inr \<lparr>wall = 63839750400000000, tzinfo = None\<rparr>
 \<and> filter_cooldown 63847526400000000 [[(''company_domain'', PStr ''a.com'')]]
       [''a.com'' \<mapsto> ''2024-01-02T00:00:00''] 90
     = Inl TypeError"
  by code_simp

lemma replace_Z_append: "replace_Z (a @ b) = replace_Z a @ replace_Z b"
  by (simp add: replace_Z_def)

lemma replace_Z_suffix:
  "replace_Z (x @ ''Z'') = replace_Z x @ ''+00:00''"
  "replace_Z (x @ ''+00:00'') = replace_Z x @ ''+00:00''"
  by (simp_all add: replace_Z_def)

lemma replace_Z_id: "CHR ''Z'' \<notin> set x \<Longrightarrow> replace_Z x = x"
  by (induction x) (auto simp: replace_Z_def)

lemma in_cooldown_cong:
  assumes "\<And>d. rel_option (\<lambda>a b. (a = [] \<longleftrightarrow> b = []) \<and> replace_Z a = replace_Z b)
                  (l1 d) (l2 d)"
  shows "in_cooldown_with parse l1 th v = in_cooldown_with parse l2 th v"
proof (cases v)
  case (PStr d)
  show ?thesis
    using assms[of d] unfolding PStr
    by (cases "l1 d"; cases "l2 d")
       (auto simp: in_cooldown_with_def dates_get_def bnd_simps)
qed (simp_all add: in_cooldown_with_def dates_get_def bnd_simps)

lemma filter_cooldown_loop_cong:
  assumes "\<And>d. rel_option (\<lambda>a b. (a = [] \<longleftrightarrow> b = []) \<and> replace_Z a = replace_Z b)
                  (l1 d) (l2 d)"
  shows "filter_cooldown_loop_with parse ps l1 th acc
           = filter_cooldown_loop_with parse ps l2 th acc"
proof (induction ps arbitrary: acc)
  case Nil
  show ?case by simp
next
  case (Cons p ps)
  have "in_cooldown_with parse l1 th (dict_get p ''company_domain'')
          = in_cooldown_with parse l2 th (dict_get p ''company_domain'')"
    by (rule in_cooldown_cong[OF assms])
  then show ?case
    by (simp add: Cons.IH Let_def split: sum.splits bool.splits)
qed

lemma length_utf8: "length s \<le> length (utf8 s)"
proof (induction s)
  case Nil
  show ?case by (simp add: utf8_def)
next
  case (Cons c s)
  have "1 \<le> length (utf8_char c)" by (simp add: utf8_char_def Let_def)
  with Cons show ?case by (simp add: utf8_def)
qed

lemma utf8_append: "utf8 (a @ b) = utf8 a @ utf8 b"
  by (simp add: utf8_def)

lemma utf8_offset: "utf8 ''+00:00'' = ''+00:00''"
  by code_simp

lemma takeWhile_append_stop:
  "ys \<noteq> [] \<Longrightarrow> \<not> P (hd ys) \<Longrightarrow> takeWhile P (xs @ ys) = takeWhile P xs"
  by (induction xs) (cases ys; simp)+

lemma byte_at_append: "i < length b \<Longrightarrow> byte_at (b @ s) i = byte_at b i"
  by (simp add: byte_at_def nth_append)

lemma plus_not_digit: "\<not> is_digit CHR ''+''"
  by code_simp

lemma find_separator_append:
  assumes "12 \<le> length b"
  shows "find_isoformat_datetime_separator (b @ ''+00:00'')
           = find_isoformat_datetime_separator b"
proof -
  have tw: "takeWhile is_digit (drop 7 b @ ''+00:00'') = takeWhile is_digit (drop 7 b)"
    by (rule takeWhile_append_stop) (simp_all add: plus_not_digit)
  have ba: "byte_at (b @ ''+00:00'') 4 = byte_at b 4"
           "byte_at (b @ ''+00:00'') 5 = byte_at b 5"
           "byte_at (b @ ''+00:00'') 8 = byte_at b 8"
           "byte_at (b @ ''+00:00'') 10 = byte_at b 10"
    using assms by (simp_all add: byte_at_append)
  show ?thesis
    unfolding find_isoformat_datetime_separator_def Let_def ba
    using assms tw by simp
qed

lemma find_separator_le:
  "find_isoformat_datetime_separator b = Some sep \<Longrightarrow> sep \<le> 10"
  by (auto simp: find_isoformat_datetime_separator_def Let_def split: if_splits)

lemma new_datetime_tz:
  "new_datetime ord hh mm ss us tz = Inr dt \<Longrightarrow>
   tzinfo dt = tz \<and> new_datetime ord hh mm ss us tz' = Inr (dt\<lparr>tzinfo := tz'\<rparr>)"
  by (auto simp: new_datetime_def split: if_splits)

lemma parse_fraction_delim:
  "parse_fraction rest d = Inr (us, t) \<Longrightarrow> \<exists>t'. parse_fraction rest d' = Inr (us, t')"
  by (auto simp: parse_fraction_def Let_def split: if_splits)

lemma fraction_step_delim:
  assumes "bnd (parse_fraction rest d) (\<lambda>(us, t). Inr (vals, us, t)) = Inr (vs, us, t)"
  shows "\<exists>t'. bnd (parse_fraction rest d') (\<lambda>(us, t). Inr (vals, us, t)) = Inr (vs, us, t')"
proof (cases "parse_fraction rest d")
  case (Inl e)
  with assms show ?thesis by (simp add: bnd_simps)
next
  case (Inr q)
  obtain u0 t0 where q: "q = (u0, t0)" by (cases q)
  from parse_fraction_delim[OF Inr[unfolded q], of d'] obtain t' where
    "parse_fraction rest d' = Inr (u0, t')" by blast
  with assms Inr q show ?thesis by (simp add: bnd_simps)
qed

lemma parse_comps_delim:
  "parse_comps n hs rest d vals = Inr (vs, us, t) \<Longrightarrow>
   \<exists>t'. parse_comps n hs rest d' vals = Inr (vs, us, t')"
proof (induction n arbitrary: hs rest vals)
  case 0
  then show ?case by simp
next
  case (Suc left)
  show ?case
  proof (cases "parse_digits rest 2")
    case None
    with Suc.prems show ?thesis by simp
  next
    case (Some q)
    obtain v rest1 where q: "q = (v, rest1)" by (cases q)
    show ?thesis
    proof (cases "length rest1 \<le> 1")
      case True
      with Suc.prems Some q show ?thesis by (simp add: Let_def)
    next
      case False
      then obtain c r where rest1: "rest1 = c # r" by (cases rest1) auto
      define hs' where "hs' = (if Suc left = 3 then c = CHR '':'' else hs)"
      define vals1 where "vals1 = vals @ [v]"
      have step: "parse_comps (Suc left) hs rest dd vals =
          (if hs' \<and> c = CHR '':'' then
             (if left = 0
              then bnd (parse_fraction r dd) (\<lambda>(us, t). Inr (vals1, us, t))
              else parse_comps left hs' r dd vals1)
           else if c = CHR ''.'' \<or> c = CHR '','' then
             bnd (parse_fraction r dd) (\<lambda>(us, t). Inr (vals1, us, t))
           else if \<not> hs' then
             (if left = 0
              then bnd (parse_fraction (c # r) dd) (\<lambda>(us, t). Inr (vals1, us, t))
              else parse_comps left hs' (c # r) dd vals1)
           else Inl ValueError)" for dd
        using Some q rest1 False by (simp add: Let_def hs'_def vals1_def)
      note pr = Suc.prems[unfolded step]
      show ?thesis
      proof (cases "hs' \<and> c = CHR '':''")
        case colon: True
        show ?thesis
        proof (cases "left = 0")
          case True
          from pr colon True
          have "bnd (parse_fraction r d) (\<lambda>(us, t). Inr (vals1, us, t)) = Inr (vs, us, t)"
            by simp
          from fraction_step_delim[OF this, of d'] colon True
          show ?thesis unfolding step by simp
        next
          case nz: False
          from pr colon nz
          have "parse_comps left hs' r d vals1 = Inr (vs, us, t)"
            by simp
          from Suc.IH[OF this] colon nz
          show ?thesis unfolding step by simp
        qed
      next
        case nc: False
        show ?thesis
        proof (cases "c = CHR ''.'' \<or> c = CHR '',''")
          case point: True
          from pr nc point
          have "bnd (parse_fraction r d) (\<lambda>(us, t). Inr (vals1, us, t)) = Inr (vs, us, t)"
            by auto
          from fraction_step_delim[OF this, of d'] nc point
          show ?thesis unfolding step by auto
        next
          case np: False
          show ?thesis
          proof (cases hs')
            case True
            with pr nc np show ?thesis by simp
          next
            case nh: False
            show ?thesis
            proof (cases "left = 0")
              case True
              from pr nc np nh True
              have "bnd (parse_fraction (c # r) d) (\<lambda>(us, t). Inr (vals1, us, t))
                      = Inr (vs, us, t)"
                by simp
              from fraction_step_delim[OF this, of d'] nc np nh True
              show ?thesis unfolding step by simp
            next
              case nz: False
              from pr nc np nh nz
              have "parse_comps left hs' (c # r) d vals1 = Inr (vs, us, t)"
                by simp
              from Suc.IH[OF this] nc np nh nz
              show ?thesis unfolding step by simp
            qed
          qed
        qed
      qed
    qed
  qed
qed

lemma parse_hh_mm_ss_ff_delim:
  assumes "parse_hh_mm_ss_ff T d = Inr (comps, t)"
  shows "\<exists>t'. parse_hh_mm_ss_ff T d' = Inr (comps, t')"
proof (cases "parse_comps 3 True T d []")
  case (Inl e)
  with assms show ?thesis by (simp add: parse_hh_mm_ss_ff_def bnd_simps)
next
  case (Inr q)
  obtain vs us t0 where q: "q = (vs, us, t0)" by (cases q)
  from parse_comps_delim[OF Inr[unfolded q], of d'] obtain t' where
    "parse_comps 3 True T d' [] = Inr (vs, us, t')" by blast
  with assms Inr q show ?thesis
    by (simp add: parse_hh_mm_ss_ff_def bnd_simps Let_def)
qed

lemma parse_time_naive:
  assumes "parse_isoformat_time T = Inr (comps, None)"
  shows "T \<noteq> [] \<and> (\<forall>c\<in>set T. \<not> is_tz_mark c)
       \<and> (\<exists>t. parse_hh_mm_ss_ff T NUL = Inr (comps, t))"
proof -
  let ?P = "\<lambda>c. \<not> is_tz_mark c"
  from assms have ne: "T \<noteq> []"
    by (auto simp: parse_isoformat_time_def)
  have rest: "dropWhile ?P T = []"
  proof (cases "dropWhile ?P T")
    case Nil
    then show ?thesis .
  next
    case (Cons mark tzstr)
    show ?thesis
    proof (cases "parse_hh_mm_ss_ff (takeWhile ?P T) mark")
      case (Inl e)
      with assms ne Cons show ?thesis
        by (simp add: parse_isoformat_time_def Let_def bnd_simps)
    next
      case tc: (Inr q1)
      obtain c1 t1 where q1: "q1 = (c1, t1)" by (cases q1)
      show ?thesis
      proof (cases "mark = CHR ''Z''")
        case True
        with assms ne Cons tc q1 show ?thesis
          by (simp add: parse_isoformat_time_def Let_def bnd_simps split: if_splits)
      next
        case nz: False
        show ?thesis
        proof (cases "parse_hh_mm_ss_ff tzstr NUL")
          case (Inl e)
          with assms ne Cons tc q1 nz show ?thesis
            by (simp add: parse_isoformat_time_def Let_def bnd_simps)
        next
          case (Inr q2)
          obtain h m s f t2 where q2: "q2 = ((h, m, s, f), t2)"
            by (cases q2) auto
          from assms ne Cons tc q1 nz Inr q2 show ?thesis
            by (simp add: parse_isoformat_time_def Let_def bnd_simps split: if_splits)
        qed
      qed
    qed
  qed
  then have all: "\<forall>c\<in>set T. ?P c" by (simp add: dropWhile_eq_Nil_conv)
  then have tw: "takeWhile ?P T = T" by (simp add: takeWhile_eq_all_conv)
  obtain q where q: "parse_hh_mm_ss_ff T NUL = Inr q"
    using assms ne rest tw
    by (cases "parse_hh_mm_ss_ff T NUL")
       (simp_all add: parse_isoformat_time_def Let_def bnd_simps)
  obtain c0 t0 where q0: "q = (c0, t0)" by (cases q)
  from assms ne rest tw q q0 have "c0 = comps"
    by (simp add: parse_isoformat_time_def Let_def bnd_simps split: if_splits)
  with ne all q q0 show ?thesis by simp
qed

lemma parse_zero_offset: "parse_hh_mm_ss_ff ''00:00'' NUL = Inr ((0, 0, 0, 0), False)"
  by code_simp

lemma parse_time_utc:
  assumes "\<forall>c\<in>set T. \<not> is_tz_mark c" and "parse_hh_mm_ss_ff T NUL = Inr (comps, t)"
  shows "parse_isoformat_time (T @ ''+00:00'') = Inr (comps, Some 0)"
proof -
  let ?P = "\<lambda>c. \<not> is_tz_mark c"
  have plus: "\<not> ?P CHR ''+''" by (simp add: is_tz_mark_def)
  have tw: "takeWhile ?P (T @ ''+00:00'') = T"
    using assms(1) plus by (simp add: takeWhile_append2)
  have dw: "dropWhile ?P (T @ ''+00:00'') = ''+00:00''"
    using assms(1) plus by (simp add: dropWhile_append2)
  from parse_hh_mm_ss_ff_delim[OF assms(2), of "CHR ''+''"] obtain t' where
    p: "parse_hh_mm_ss_ff T CHR ''+'' = Inr (comps, t')" by blast
  show ?thesis
    unfolding parse_isoformat_time_def Let_def tw dw
    by (simp add: p bnd_simps parse_zero_offset)
qed

lemma fromisoformat_utc_suffix:
  assumes len: "length x > 11" and p: "fromisoformat x = Inr dt" and naive: "tzinfo dt = None"
  shows "fromisoformat (x @ ''+00:00'') = Inr (dt\<lparr>tzinfo := Some 0\<rparr>)"
proof -
  let ?b = "utf8 x"
  have lb: "12 \<le> length ?b" using len length_utf8[of x] by simp
  have l7: "\<not> length x < 7" using len by simp
  obtain sep where sep: "find_isoformat_datetime_separator ?b = Some sep"
    using p l7
    by (cases "find_isoformat_datetime_separator ?b")
       (simp_all add: fromisoformat_def Let_def)
  have sl: "sep < length ?b" using find_separator_le[OF sep] lb by simp
  let ?T = "drop (sep + sep_width (?b ! sep)) ?b"
  obtain ord where date: "parse_isoformat_date (take sep ?b) = Inr ord"
    using p l7 sep
    by (cases "parse_isoformat_date (take sep ?b)")
       (simp_all add: fromisoformat_def Let_def bnd_simps)
  obtain q where time0: "parse_isoformat_time ?T = Inr q"
    using p l7 sep date sl
    by (cases "parse_isoformat_time ?T")
       (simp_all add: fromisoformat_def Let_def bnd_simps)
  obtain hh mm ss us tz where q: "q = ((hh, mm, ss, us), tz)" by (cases q) auto
  note time = time0[unfolded q]
  have nd: "new_datetime ord hh mm ss us tz = Inr dt"
    using p l7 sep date sl time by (simp add: fromisoformat_def Let_def bnd_simps)
  from new_datetime_tz[OF nd] naive have tz: "tz = None"
    and nd': "new_datetime ord hh mm ss us (Some 0) = Inr (dt\<lparr>tzinfo := Some 0\<rparr>)"
    by simp_all
  from parse_time_naive[OF time[unfolded tz]] obtain t where
      T: "?T \<noteq> []" and marks: "\<forall>c\<in>set ?T. \<not> is_tz_mark c"
    and hms: "parse_hh_mm_ss_ff ?T NUL = Inr ((hh, mm, ss, us), t)" by blast
  have time': "parse_isoformat_time (?T @ ''+00:00'') = Inr ((hh, mm, ss, us), Some 0)"
    by (rule parse_time_utc[OF marks hms])
  let ?b' = "utf8 (x @ ''+00:00'')"
  have b': "?b' = ?b @ ''+00:00''" by (simp only: utf8_append utf8_offset)
  have sep': "find_isoformat_datetime_separator ?b' = Some sep"
    unfolding b' using find_separator_append[OF lb] sep by simp
  have wl: "sep + sep_width (?b ! sep) \<le> length ?b" using T by simp
  have dr: "drop (sep + sep_width (?b' ! sep)) ?b' = ?T @ ''+00:00''"
    unfolding b' using sl wl by (simp add: nth_append)
  have tk: "take sep ?b' = take sep ?b"
    unfolding b' using sl by simp
  have l7': "\<not> length (x @ ''+00:00'') < 7" using len by (cases x) simp_all
  have sl': "sep < length ?b'" unfolding b' using sl by simp
  show ?thesis
    unfolding fromisoformat_def Let_def
    using l7' sep' sl' date time' nd'
    by (simp only: if_False if_True option.case tk dr bnd_simps prod.case)
qed

text \<open>
  C4.  A timestamp with the explicit UTC offset \<open>+00:00\<close> and the same timestamp with a
  trailing \<open>Z\<close> in place of the offset are rewritten to the same string before parsing,
  so \<open>filter_cooldown\<close> returns the same result for both, for every list of profiles
  and every threshold.  For a well-formed timestamp with a time part, the \<open>Z\<close>-suffixed
  string parses (no exception) to the aware datetime with offset zero, not to a naive
  one.
\<close>

theorem filter_cooldown_z_suffix:
  "replace_Z (x @ ''Z'') = replace_Z (x @ ''+00:00'')
 \<and> filter_cooldown now profiles (lcd(d \<mapsto> x @ ''Z'')) cooldown_days
     = filter_cooldown now profiles (lcd(d \<mapsto> x @ ''+00:00'')) cooldown_days
 \<and> (CHR ''Z'' \<notin> set x \<and> length x > 11 \<and> fromisoformat x = Inr dt \<and> tzinfo dt = None
     \<longrightarrow> fromisoformat (replace_Z (x @ ''Z'')) = Inr (dt\<lparr>tzinfo := Some 0\<rparr>))"
proof (intro conjI impI)
  show "replace_Z (x @ ''Z'') = replace_Z (x @ ''+00:00'')"
    by (simp only: replace_Z_suffix)
next
  have "rel_option (\<lambda>a b. (a = [] \<longleftrightarrow> b = []) \<and> replace_Z a = replace_Z b)
          ((lcd(d \<mapsto> x @ ''Z'')) k) ((lcd(d \<mapsto> x @ ''+00:00'')) k)" for k
    by (cases "lcd k") (simp_all add: replace_Z_suffix)
  then have "filter_cooldown_loop_with fromisoformat profiles (lcd(d \<mapsto> x @ ''Z'')) th []
           = filter_cooldown_loop_with fromisoformat profiles (lcd(d \<mapsto> x @ ''+00:00''))
               th []" for th
    by (rule filter_cooldown_loop_cong)
  then show "filter_cooldown now profiles (lcd(d \<mapsto> x @ ''Z'')) cooldown_days
     = filter_cooldown now profiles (lcd(d \<mapsto> x @ ''+00:00'')) cooldown_days"
    by (simp add: filter_cooldown_def filter_cooldown_with_def)
next
  assume h: "CHR ''Z'' \<notin> set x \<and> length x > 11 \<and> fromisoformat x = Inr dt
           \<and> tzinfo dt = None"
  then have "fromisoformat (x @ ''+00:00'') = Inr (dt\<lparr>tzinfo := Some 0\<rparr>)"
    by (intro fromisoformat_utc_suffix) simp_all
  with h show "fromisoformat (replace_Z (x @ ''Z'')) = Inr (dt\<lparr>tzinfo := Some 0\<rparr>)"
    by (simp add: replace_Z_suffix replace_Z_id)
qed

lemma z_example:
  "CHR ''Z'' \<notin> set ''2024-01-02T01:00:00''
 \<and> length ''2024-01-02T01:00:00'' > 11
 \<and> fromisoformat ''2024-01-02T01:00:00'' = Inr \<lparr>wall = 63839754000000000, tzinfo = None\<rparr>
 \<and> filter_cooldown 63847526400000000 [[(''company_domain'', PStr ''b.com'')]]
      [''b.com'' \<mapsto> ''2024-01-02T01:00:00'' @ ''+00:00''] 90 = Inr []"
  by code_simp

theorem filter_cooldown_z_suffix_witness:
  "fromisoformat (replace_Z (''2024-01-02T01:00:00'' @ ''Z''))
     = Inr \<lparr>wall = 63839754000000000, tzinfo = Some 0\<rparr>
 \<and> filter_cooldown 63847526400000000 [[(''company_domain'', PStr ''b.com'')]]
      [''b.com'' \<mapsto> ''2024-01-02T01:00:00'' @ ''Z''] 90 = Inr []"
proof -
  note t = filter_cooldown_z_suffix
    [of "''2024-01-02T01:00:00''" 63847526400000000
        "[[(''company_domain'', PStr ''b.com'')]]" Map.empty "''b.com''" 90
        "\<lparr>wall = 63839754000000000, tzinfo = None\<rparr>"]
  have "fromisoformat (replace_Z (''2024-01-02T01:00:00'' @ ''Z''))
          = Inr (\<lparr>wall = 63839754000000000, tzinfo = None\<rparr>\<lparr>tzinfo := Some 0\<rparr>)"
    using t[THEN conjunct2, THEN conjunct2] z_example by simp
  moreover have "filter_cooldown 63847526400000000 [[(''company_domain'', PStr ''b.com'')]]
      [''b.com'' \<mapsto> ''2024-01-02T01:00:00'' @ ''Z''] 90 = Inr []"
    using t[THEN conjunct2, THEN conjunct1] z_example by simp
  ultimately show ?thesis by simp
qed

end
